theory Spec2Isabelle
  imports Main
begin

section \<open>JavaScript values, errors and the host\<close>

text \<open>
  The serializer of \<^verbatim>\<open>src/index.ts\<close> works on arbitrary JavaScript values. The
  fragment modelled here: the primitives, arrays, plain objects and instances of named
  classes, as immutable trees. A finite number is an integer (nothing below depends on
  fractions); the three non-finite numbers are kept apart, since the code tests for them.
  An instance \<open>Inst c s t ps x\<close> is an object whose constructor is named \<open>c\<close>, whose string
  coercion is \<open>s\<close>, whose \<^verbatim>\<open>toJSON()\<close> method (when \<open>t\<close> is \<open>Some r\<close>) returns \<open>r\<close>, whose own
  enumerable properties are \<open>ps\<close> and whose internal state (the elements of a Set, the
  instant of a Date) is \<open>x\<close>. Functions and symbols are not values of the fragment.
  An object is the list of its properties in their order; a key occurs once in it.
\<close>

datatype jsnum = Finite int | PosInfinity | NegInfinity | NaN

datatype jsval =
    Undefined
  | Null
  | Bool bool
  | Num jsnum
  | BigInt int
  | Str string
  | Arr "jsval list"
  | Obj "(string \<times> jsval) list"
  | Inst string string "jsval option" "(string \<times> jsval) list" jsval

text \<open>A thrown error: its class and its \<^verbatim>\<open>message\<close>.\<close>

datatype error_class = Error | TypeError | ReferenceError | RangeError | SyntaxError | EvalError

datatype jserror = Thrown error_class string

fun message :: "jserror \<Rightarrow> string" where
  "message (Thrown c m) = m"

text \<open>
  What the text of a JSON document denotes: the tree that \<^verbatim>\<open>JSON.parse\<close> builds from it
  and that \<^verbatim>\<open>JSON.stringify\<close> renders. The rendering itself (quoting, indentation) and
  the reading of characters belong to the format layer and are not modelled: a text is
  either malformed (with the message of the host's SyntaxError) or the tree it denotes.
\<close>

datatype json =
    JNull
  | JBool bool
  | JNum int
  | JStr string
  | JArr "json list"
  | JObj "(string \<times> json) list"

datatype json_text = Malformed string | WellFormed json

text \<open>
  The host: how deep its call stack lets \<^verbatim>\<open>JSON.stringify\<close> recurse, and the property
  names that plain objects and arrays inherit from their prototypes (the operator
  \<^verbatim>\<open>in\<close> finds those too).
\<close>

record host =
  stack_depth :: nat
  object_proto :: "string list"
  array_proto :: "string list"

definition es_host :: host where
  "es_host = \<lparr>
     stack_depth = 1000,
     object_proto = [''constructor'', ''__defineGetter__'', ''__defineSetter__'',
       ''hasOwnProperty'', ''__lookupGetter__'', ''__lookupSetter__'', ''isPrototypeOf'',
       ''propertyIsEnumerable'', ''toString'', ''valueOf'', ''__proto__'', ''toLocaleString''],
     array_proto = [''concat'', ''copyWithin'', ''fill'', ''find'', ''findIndex'',
       ''lastIndexOf'', ''pop'', ''push'', ''reverse'', ''shift'', ''unshift'', ''slice'',
       ''sort'', ''splice'', ''includes'', ''indexOf'', ''join'', ''keys'', ''entries'',
       ''values'', ''forEach'', ''filter'', ''flat'', ''flatMap'', ''map'', ''every'', ''some'',
       ''reduce'', ''reduceRight'', ''constructor'', ''__defineGetter__'', ''__defineSetter__'',
       ''hasOwnProperty'', ''__lookupGetter__'', ''__lookupSetter__'', ''isPrototypeOf'',
       ''propertyIsEnumerable'', ''toString'', ''valueOf'', ''__proto__'', ''toLocaleString'']
   \<rparr>"

subsection \<open>String coercion\<close>

definition quoted :: "string \<Rightarrow> string" where
  "quoted s = CHR 0x27 # s @ [CHR 0x27]"

definition blank_line :: string where
  "blank_line = [CHR 0x0A, CHR 0x0A]"

fun show_nat :: "nat \<Rightarrow> string" where
  "show_nat n = (if n < 10 then [''0123456789'' ! n]
                 else show_nat (n div 10) @ [''0123456789'' ! (n mod 10)])"

declare show_nat.simps [simp del]

definition show_int :: "int \<Rightarrow> string" where
  "show_int i = (if i < 0 then CHR ''-'' # show_nat (nat (- i)) else show_nat (nat i))"

text \<open>
  \<open>to_display v\<close> is the string a template literal puts for \<^verbatim>\<open>${v}\<close>. An array joins its
  elements with commas, \<^verbatim>\<open>null\<close> and \<^verbatim>\<open>undefined\<close> elements giving the empty string. A
  plain object gives \<^verbatim>\<open>[object Object]\<close>, unless an own property shadows \<^verbatim>\<open>toString\<close>:
  no value of the fragment is callable, so the coercion then raises a TypeError.
\<close>

fun to_display :: "jsval \<Rightarrow> jserror + string"
  and join_display :: "jsval list \<Rightarrow> jserror + string" where
  "to_display Undefined = Inr ''undefined''"
| "to_display Null = Inr ''null''"
| "to_display (Bool b) = Inr (if b then ''true'' else ''false'')"
| "to_display (Num (Finite i)) = Inr (show_int i)"
| "to_display (Num PosInfinity) = Inr ''Infinity''"
| "to_display (Num NegInfinity) = Inr ''-Infinity''"
| "to_display (Num NaN) = Inr ''NaN''"
| "to_display (BigInt i) = Inr (show_int i)"
| "to_display (Str s) = Inr s"
| "to_display (Arr xs) = join_display xs"
| "to_display (Obj kvs) =
     (if ''toString'' \<in> fst ` set kvs
      then Inl (Thrown TypeError ''Cannot convert object to primitive value'')
      else Inr ''[object Object]'')"
| "to_display (Inst c s t ps x) = Inr s"
| "join_display [] = Inr []"
| "join_display (x # xs) =
     (case (if x = Undefined \<or> x = Null then Inr [] else to_display x) of
        Inl e \<Rightarrow> Inl e
      | Inr d \<Rightarrow>
          (if xs = [] then Inr d
           else (case join_display xs of Inl e \<Rightarrow> Inl e | Inr r \<Rightarrow> Inr (d @ '','' @ r))))"

subsection \<open>Operators on values\<close>

fun typeof :: "jsval \<Rightarrow> string" where
  "typeof Undefined = ''undefined''"
| "typeof Null = ''object''"
| "typeof (Bool b) = ''boolean''"
| "typeof (Num n) = ''number''"
| "typeof (BigInt i) = ''bigint''"
| "typeof (Str s) = ''string''"
| "typeof (Arr xs) = ''object''"
| "typeof (Obj kvs) = ''object''"
| "typeof (Inst c s t ps x) = ''object''"

text \<open>
  The indexed properties of an array, from index \<open>i\<close> on. An \<open>Undefined\<close> element of an
  array built by \<^verbatim>\<open>JSON.parse\<close> is a hole (the element was deleted), and has no key.
\<close>

fun array_entries :: "nat \<Rightarrow> jsval list \<Rightarrow> (string \<times> jsval) list" where
  "array_entries i [] = []"
| "array_entries i (x # xs) =
     (if x = Undefined then array_entries (Suc i) xs
      else (show_nat i, x) # array_entries (Suc i) xs)"

text \<open>\<^verbatim>\<open>Object.keys(v)\<close>, for a non-null object \<open>v\<close> (the code calls it on nothing else).\<close>

fun own_keys :: "jsval \<Rightarrow> string list" where
  "own_keys (Arr xs) = map fst (array_entries 0 xs)"
| "own_keys (Obj kvs) = map fst kvs"
| "own_keys (Inst c s t ps x) = map fst ps"
| "own_keys _ = []"

text \<open>
  \<^verbatim>\<open>k in v\<close>, for a non-null object \<open>v\<close>: own properties (for an array also \<^verbatim>\<open>length\<close>)
  and inherited ones.
\<close>

fun has_property :: "host \<Rightarrow> jsval \<Rightarrow> string \<Rightarrow> bool" where
  "has_property H (Arr xs) k =
     (k \<in> set (own_keys (Arr xs)) \<or> k = ''length'' \<or> k \<in> set (array_proto H))"
| "has_property H (Obj kvs) k = (k \<in> set (own_keys (Obj kvs)) \<or> k \<in> set (object_proto H))"
| "has_property H (Inst c s t ps x) k =
     (k \<in> set (own_keys (Inst c s t ps x)) \<or> k \<in> set (object_proto H))"
| "has_property H _ k = False"

text \<open>The own property \<open>k\<close> of \<open>v\<close>, if \<open>v\<close> has one.\<close>

fun own_property :: "jsval \<Rightarrow> string \<Rightarrow> jsval option" where
  "own_property (Arr xs) k =
     (if k = ''length'' then Some (Num (Finite (int (length xs))))
      else map_of (array_entries 0 xs) k)"
| "own_property (Obj kvs) k = map_of kvs k"
| "own_property (Inst c s t ps x) k = map_of ps k"
| "own_property _ k = None"

text \<open>
  \<^verbatim>\<open>v.k\<close> for a value \<open>v\<close> other than \<^verbatim>\<open>null\<close> and \<^verbatim>\<open>undefined\<close> and a name \<open>k\<close> that
  no prototype defines (the code reads \<^verbatim>\<open>version\<close>, \<^verbatim>\<open>type\<close>, \<^verbatim>\<open>value\<close> and, of a
  value that is not a function, \<^verbatim>\<open>name\<close>): the own property, or \<^verbatim>\<open>undefined\<close>.
\<close>

fun field :: "jsval \<Rightarrow> string \<Rightarrow> jsval" where
  "field (Obj kvs) k = (case map_of kvs k of None \<Rightarrow> Undefined | Some v \<Rightarrow> v)"
| "field (Inst c s t ps x) k = (case map_of ps k of None \<Rightarrow> Undefined | Some v \<Rightarrow> v)"
| "field _ k = Undefined"


section \<open>The serializer instance\<close>

text \<open>
  \<^verbatim>\<open>interface IConfiguration\<close>. \<^verbatim>\<open>setConfig\<close> only stores a value whose \<^verbatim>\<open>typeof\<close> is
  that of the value it replaces, so the three properties keep their types.
  \<^verbatim>\<open>setConfig\<close> itself, the overload of \<^verbatim>\<open>getConfig\<close> that takes a key, and
  \<^verbatim>\<open>createPlugin\<close> (whose checks the types below make) are not used by the statements
  and are left out.
\<close>

record configuration =
  allowPluginsOverwrite :: bool
  serializedObjectIdentifier :: string
  defaultIndentation :: jsnum

text \<open>
  Modelled from the spec: the class \<^verbatim>\<open>Plugin\<close> of \<^verbatim>\<open>./Plugin\<close>, which
  \<^verbatim>\<open>src/index.ts\<close> imports and which is not among the sources. The spec gives it as an
  immutable record of a type identifier and two functions of a key and a value; the code
  reads \<^verbatim>\<open>plugin.name\<close> and calls \<^verbatim>\<open>plugin.serialize(key, v)\<close> and
  \<^verbatim>\<open>plugin.deserialize(key, v)\<close>. A call returns a value or throws.
\<close>

type_synonym hook = "string \<Rightarrow> jsval \<Rightarrow> jserror + jsval"

record plugin =
  name :: string
  serialize :: hook
  deserialize :: hook

type_synonym PluginsRepository = "string \<rightharpoonup> plugin"

text \<open>
  The state: the two private fields of a \<^verbatim>\<open>BetterJSONSerializer\<close>, and the part of the
  JavaScript heap that holds configuration objects. \<^verbatim>\<open>this.conf\<close> is a reference into
  that heap, so that a caller who holds a reference to an object can be told apart from
  one who holds a copy of it. Addresses below \<open>next_addr\<close> are allocated.
\<close>

type_synonym addr = nat

record state =
  heap :: "addr \<Rightarrow> configuration"
  next_addr :: addr
  conf :: addr
  plugins :: PluginsRepository

definition this_conf :: "state \<Rightarrow> configuration" where
  "this_conf st = heap st (conf st)"

definition default_configuration :: configuration where
  "default_configuration = \<lparr>
     allowPluginsOverwrite = False,
     serializedObjectIdentifier = ''_@serialized-object'',
     defaultIndentation = Finite 0 \<rparr>"

text \<open>\<^verbatim>\<open>new BetterJSONSerializer()\<close>: the field initialisers.\<close>

definition new_serializer :: state where
  "new_serializer = \<lparr>
     heap = (\<lambda>a. default_configuration),
     next_addr = 1,
     conf = 0,
     plugins = Map.empty \<rparr>"

subsection \<open>getConfig\<close>

text \<open>
  \<^verbatim>\<open>getConfig()\<close>, the overload without argument: \<^verbatim>\<open>return { ...this.conf }\<close> allocates
  a new object, copies the properties of \<^verbatim>\<open>this.conf\<close> into it and returns its
  address.
\<close>

definition getConfig :: "state \<Rightarrow> addr \<times> state" where
  "getConfig st =
     (next_addr st,
      st\<lparr>heap := (heap st)(next_addr st := this_conf st), next_addr := Suc (next_addr st)\<rparr>)"

text \<open>
  What a caller can do with a reference \<open>a\<close>: assign to the properties of the object at
  \<open>a\<close>, here any function of the object's content; and a sequence of such writes.
\<close>

definition write_object :: "addr \<Rightarrow> (configuration \<Rightarrow> configuration) \<Rightarrow> state \<Rightarrow> state" where
  "write_object a f st = st\<lparr>heap := (heap st)(a := f (heap st a))\<rparr>"

definition write_objects :: "addr \<Rightarrow> (configuration \<Rightarrow> configuration) list \<Rightarrow> state \<Rightarrow> state" where
  "write_objects a fs st = fold (write_object a) fs st"

subsection \<open>use\<close>

text \<open>
  The argument of \<^verbatim>\<open>use\<close>: a \<^verbatim>\<open>Plugin\<close>, an iterable (each of its elements goes through
  \<^verbatim>\<open>use\<close> again), or an object that is neither. The call returns normally (\<open>None\<close>) or
  throws; the registry is mutated in place, so a state comes back either way.
\<close>

datatype use_arg = OnePlugin plugin | ManyPlugins "use_arg list" | NotAPlugin

fun use :: "state \<Rightarrow> use_arg \<Rightarrow> jserror option \<times> state"
  and use_each :: "state \<Rightarrow> use_arg list \<Rightarrow> jserror option \<times> state" where
  "use st (ManyPlugins ps) = use_each st ps"
| "use st NotAPlugin = (Some (Thrown TypeError ''The plugin is invalid.''), st)"
| "use st (OnePlugin p) =
     (if name p \<in> dom (plugins st) \<and> \<not> allowPluginsOverwrite (this_conf st)
      then (Some (Thrown Error (''Unable to add plugin for '' @ quoted (name p) @
              '', a plugin using this constructor name already exist and plugins override is disabled.'')),
            st)
      else (None, st\<lparr>plugins := (plugins st)(name p \<mapsto> p)\<rparr>))"
| "use_each st [] = (None, st)"
| "use_each st (p # ps) =
     (case use st p of
        (Some e, st') \<Rightarrow> (Some e, st')
      | (None, st') \<Rightarrow> use_each st' ps)"


section \<open>The format layer\<close>

text \<open>
  \<^verbatim>\<open>JSON.stringify(value, f)\<close> with a replacer function \<open>f\<close>, as ECMAScript defines it
  (SerializeJSONProperty): the value of a property is first replaced by the result of its
  \<^verbatim>\<open>toJSON\<close> method if it has one, then by the result of \<open>f\<close>, and what \<open>f\<close> returned
  is rendered, its properties being visited in turn. A property whose value becomes
  \<^verbatim>\<open>undefined\<close> is left out of an object and rendered as \<^verbatim>\<open>null\<close> in an array; a
  number that is not finite is rendered as \<^verbatim>\<open>null\<close>, and a BigInt raises a TypeError.
  The result \<open>None\<close> is \<^verbatim>\<open>undefined\<close>. The traversal follows
  what \<open>f\<close> returns, so nothing bounds it but the stack of the host: one frame per
  level, and a RangeError when no frame is left.
\<close>

definition apply_toJSON :: "jsval \<Rightarrow> jsval" where
  "apply_toJSON v = (case v of Inst c s (Some r) ps x \<Rightarrow> r | _ \<Rightarrow> v)"

fun JSON_serialize_property :: "nat \<Rightarrow> hook \<Rightarrow> string \<Rightarrow> jsval \<Rightarrow> jserror + json option"
  and JSON_serialize_array :: "nat \<Rightarrow> hook \<Rightarrow> nat \<Rightarrow> jsval list \<Rightarrow> jserror + json list"
  and JSON_serialize_object ::
    "nat \<Rightarrow> hook \<Rightarrow> (string \<times> jsval) list \<Rightarrow> jserror + (string \<times> json) list" where
  "JSON_serialize_property 0 f key v = Inl (Thrown RangeError ''Maximum call stack size exceeded'')"
| "JSON_serialize_property (Suc d) f key v =
     (case f key (apply_toJSON v) of
        Inl e \<Rightarrow> Inl e
      | Inr Undefined \<Rightarrow> Inr None
      | Inr Null \<Rightarrow> Inr (Some JNull)
      | Inr (Bool b) \<Rightarrow> Inr (Some (JBool b))
      | Inr (Num (Finite i)) \<Rightarrow> Inr (Some (JNum i))
      | Inr (Num _) \<Rightarrow> Inr (Some JNull)
      | Inr (BigInt i) \<Rightarrow> Inl (Thrown TypeError ''Do not know how to serialize a BigInt'')
      | Inr (Str s) \<Rightarrow> Inr (Some (JStr s))
      | Inr (Arr xs) \<Rightarrow>
          (case JSON_serialize_array d f 0 xs of
             Inl e \<Rightarrow> Inl e
           | Inr js \<Rightarrow> Inr (Some (JArr js)))
      | Inr (Obj kvs) \<Rightarrow>
          (case JSON_serialize_object d f kvs of
             Inl e \<Rightarrow> Inl e
           | Inr ms \<Rightarrow> Inr (Some (JObj ms)))
      | Inr (Inst c s t ps x) \<Rightarrow>
          (case JSON_serialize_object d f ps of
             Inl e \<Rightarrow> Inl e
           | Inr ms \<Rightarrow> Inr (Some (JObj ms))))"
| "JSON_serialize_array d f i [] = Inr []"
| "JSON_serialize_array d f i (x # xs) =
     (case JSON_serialize_property d f (show_nat i) x of
        Inl e \<Rightarrow> Inl e
      | Inr r \<Rightarrow>
          (case JSON_serialize_array d f (Suc i) xs of
             Inl e \<Rightarrow> Inl e
           | Inr js \<Rightarrow> Inr ((case r of None \<Rightarrow> JNull | Some j \<Rightarrow> j) # js)))"
| "JSON_serialize_object d f [] = Inr []"
| "JSON_serialize_object d f ((k, x) # kvs) =
     (case JSON_serialize_property d f k x of
        Inl e \<Rightarrow> Inl e
      | Inr r \<Rightarrow>
          (case JSON_serialize_object d f kvs of
             Inl e \<Rightarrow> Inl e
           | Inr ms \<Rightarrow> Inr ((case r of None \<Rightarrow> ms | Some j \<Rightarrow> (k, j) # ms))))"

definition JSON_stringify :: "host \<Rightarrow> hook \<Rightarrow> jsval \<Rightarrow> jserror + json option" where
  "JSON_stringify H f v = JSON_serialize_property (stack_depth H) f [] v"

text \<open>
  \<^verbatim>\<open>JSON.parse(text, f)\<close> with a reviver function \<open>f\<close> (InternalizeJSONProperty): a
  malformed text raises a SyntaxError; otherwise the tree is built bottom-up, each
  property being replaced by what \<open>f\<close> returns for it, or deleted when that is
  \<^verbatim>\<open>undefined\<close>, before \<open>f\<close> is called on the object that holds it. The root has the
  empty key.
\<close>

fun JSON_internalize :: "hook \<Rightarrow> string \<Rightarrow> json \<Rightarrow> jserror + jsval"
  and JSON_internalize_array :: "hook \<Rightarrow> nat \<Rightarrow> json list \<Rightarrow> jserror + jsval list"
  and JSON_internalize_object ::
    "hook \<Rightarrow> (string \<times> json) list \<Rightarrow> jserror + (string \<times> jsval) list" where
  "JSON_internalize f key JNull = f key Null"
| "JSON_internalize f key (JBool b) = f key (Bool b)"
| "JSON_internalize f key (JNum i) = f key (Num (Finite i))"
| "JSON_internalize f key (JStr s) = f key (Str s)"
| "JSON_internalize f key (JArr js) =
     (case JSON_internalize_array f 0 js of
        Inl e \<Rightarrow> Inl e
      | Inr xs \<Rightarrow> f key (Arr xs))"
| "JSON_internalize f key (JObj ms) =
     (case JSON_internalize_object f ms of
        Inl e \<Rightarrow> Inl e
      | Inr kvs \<Rightarrow> f key (Obj kvs))"
| "JSON_internalize_array f i [] = Inr []"
| "JSON_internalize_array f i (j # js) =
     (case JSON_internalize f (show_nat i) j of
        Inl e \<Rightarrow> Inl e
      | Inr x \<Rightarrow>
          (case JSON_internalize_array f (Suc i) js of
             Inl e \<Rightarrow> Inl e
           | Inr xs \<Rightarrow> Inr (x # xs)))"
| "JSON_internalize_object f [] = Inr []"
| "JSON_internalize_object f ((k, j) # ms) =
     (case JSON_internalize f k j of
        Inl e \<Rightarrow> Inl e
      | Inr x \<Rightarrow>
          (case JSON_internalize_object f ms of
             Inl e \<Rightarrow> Inl e
           | Inr kvs \<Rightarrow> Inr (if x = Undefined then kvs else (k, x) # kvs)))"

definition JSON_parse :: "hook \<Rightarrow> json_text \<Rightarrow> jserror + jsval" where
  "JSON_parse f t =
     (case t of
        Malformed m \<Rightarrow> Inl (Thrown SyntaxError m)
      | WellFormed j \<Rightarrow> JSON_internalize f [] j)"

text \<open>
  What \<^verbatim>\<open>stringify\<close> returns, read as the text that \<^verbatim>\<open>parse\<close> is given:
  \<^verbatim>\<open>undefined\<close> is coerced to the string \<^verbatim>\<open>undefined\<close>, which is not JSON.
\<close>

definition as_text :: "json option \<Rightarrow> json_text" where
  "as_text r =
     (case r of
        None \<Rightarrow> Malformed ''Unexpected token u in JSON at position 0''
      | Some j \<Rightarrow> WellFormed j)"

section \<open>stringify\<close>

text \<open>
  \<^verbatim>\<open>source.constructor.name\<close>, for a \<open>source\<close> other than \<^verbatim>\<open>null\<close> and
  \<^verbatim>\<open>undefined\<close>: the name of the constructor the value inherits, unless an own property
  named \<^verbatim>\<open>constructor\<close> shadows it; then the \<^verbatim>\<open>name\<close> of that property's value, which
  need not be a string, and reading it of \<^verbatim>\<open>null\<close> or \<^verbatim>\<open>undefined\<close> throws.
\<close>

definition name_of :: "jsval \<Rightarrow> jserror + jsval" where
  "name_of c =
     (if c = Undefined then Inl (Thrown TypeError (''Cannot read property '' @ quoted ''name'' @ '' of undefined''))
      else if c = Null then Inl (Thrown TypeError (''Cannot read property '' @ quoted ''name'' @ '' of null''))
      else Inr (field c ''name''))"

fun constructor_name :: "jsval \<Rightarrow> jserror + jsval" where
  "constructor_name Undefined =
     Inl (Thrown TypeError (''Cannot read property '' @ quoted ''constructor'' @ '' of undefined''))"
| "constructor_name Null =
     Inl (Thrown TypeError (''Cannot read property '' @ quoted ''constructor'' @ '' of null''))"
| "constructor_name (Bool b) = Inr (Str ''Boolean'')"
| "constructor_name (Num n) = Inr (Str ''Number'')"
| "constructor_name (BigInt i) = Inr (Str ''BigInt'')"
| "constructor_name (Str s) = Inr (Str ''String'')"
| "constructor_name (Arr xs) = Inr (Str ''Array'')"
| "constructor_name (Obj kvs) =
     (case map_of kvs ''constructor'' of None \<Rightarrow> Inr (Str ''Object'') | Some c \<Rightarrow> name_of c)"
| "constructor_name (Inst c s t ps x) =
     (case map_of ps ''constructor'' of None \<Rightarrow> Inr (Str c) | Some c' \<Rightarrow> name_of c')"

text \<open>
  Lines 212 to 225 of \<^verbatim>\<open>src/index.ts\<close>, the chain that sets \<^verbatim>\<open>constructorName\<close>:
  \<^verbatim>\<open>source === undefined\<close>, \<^verbatim>\<open>source === null\<close>, \<^verbatim>\<open>source === Infinity\<close>,
  \<^verbatim>\<open>Number.isNaN(source)\<close>, and otherwise \<^verbatim>\<open>source.constructor.name\<close>.
\<close>

definition classify :: "jsval \<Rightarrow> jserror + jsval" where
  "classify source =
     (if source = Undefined then Inr (Str ''undefined'')
      else if source = Null then Inr (Str ''null'')
      else if source = Num PosInfinity then Inr (Str ''infinity'')
      else if source = Num NaN then Inr (Str ''nan'')
      else constructor_name source)"

text \<open>
  \<^verbatim>\<open>this.plugins.get(constructorName)\<close>: the keys of the map are strings, and a key that
  is not a string equals none of them.
\<close>

definition plugins_get :: "PluginsRepository \<Rightarrow> jsval \<Rightarrow> plugin option" where
  "plugins_get reg c = (case c of Str n \<Rightarrow> reg n | _ \<Rightarrow> None)"

text \<open>The object that the replacer returns for a value a plugin has serialized.\<close>

definition serialized_object :: "string \<Rightarrow> jsval \<Rightarrow> jsval \<Rightarrow> jsval" where
  "serialized_object identifier constructorName serializedValue =
     Obj [(identifier,
           Obj [(''version'', Num (Finite 1)),
                (''type'', constructorName),
                (''value'', serializedValue)])]"

text \<open>
  Lines 201 to 210: the replacer of the caller, if there is one, applied to the raw
  value; when it throws, an EvalError that names the key and the value is thrown in
  its place. A \<open>replacer\<close> of \<open>None\<close> is the default \<^verbatim>\<open>null\<close>.
\<close>

definition call_replacer :: "hook option \<Rightarrow> string \<Rightarrow> jsval \<Rightarrow> jserror + jsval" where
  "call_replacer replacer key val =
     (case replacer of
        None \<Rightarrow> Inr val
      | Some r \<Rightarrow>
          (case r key val of
             Inr source \<Rightarrow> Inr source
           | Inl error \<Rightarrow>
               (case to_display val of
                  Inl e \<Rightarrow> Inl e
                | Inr d \<Rightarrow>
                    Inl (Thrown EvalError
                      (''An error occured while calling the replacer function on key='' @
                       quoted key @ '' and '' @ quoted d @ ''.'')))))"

text \<open>
  Lines 238 to 245: the plugin's \<^verbatim>\<open>serialize\<close>; when it throws, an EvalError with the
  identifier and the message of the error is thrown.
\<close>

definition call_serialize :: "plugin \<Rightarrow> jsval \<Rightarrow> string \<Rightarrow> jsval \<Rightarrow> jserror + jsval" where
  "call_serialize matchingPlugin constructorName key source =
     (case serialize matchingPlugin key source of
        Inr serializedValue \<Rightarrow> Inr serializedValue
      | Inl error \<Rightarrow>
          (case to_display constructorName of
             Inl e \<Rightarrow> Inl e
           | Inr d \<Rightarrow>
               Inl (Thrown EvalError
                 (''Error while serializing type '' @ quoted d @ ''.'' @
                  blank_line @ message error))))"

text \<open>
  The arrow function that \<^verbatim>\<open>stringify\<close> passes to \<^verbatim>\<open>JSON.stringify\<close> (lines 198 to
  255).
\<close>

definition stringify_replacer :: "state \<Rightarrow> hook option \<Rightarrow> string \<Rightarrow> jsval \<Rightarrow> jserror + jsval" where
  "stringify_replacer st replacer key val =
     (case call_replacer replacer key val of
        Inl e \<Rightarrow> Inl e
      | Inr source \<Rightarrow>
          (case classify source of
             Inl e \<Rightarrow> Inl e
           | Inr constructorName \<Rightarrow>
               (case plugins_get (plugins st) constructorName of
                  None \<Rightarrow> Inr source
                | Some matchingPlugin \<Rightarrow>
                    (case call_serialize matchingPlugin constructorName key source of
                       Inl e \<Rightarrow> Inl e
                     | Inr serializedValue \<Rightarrow>
                         Inr (serialized_object (serializedObjectIdentifier (this_conf st))
                                constructorName serializedValue)))))"

text \<open>
  \<^verbatim>\<open>stringify(value, replacer)\<close>. Its third parameter, the indentation, only changes the
  layout of the text and not the tree the text denotes.
\<close>

definition stringify :: "host \<Rightarrow> state \<Rightarrow> jsval \<Rightarrow> hook option \<Rightarrow> jserror + json option" where
  "stringify H st v replacer =
     (case JSON_stringify H (stringify_replacer st replacer) v of
        Inl error \<Rightarrow>
          Inl (Thrown EvalError (''Error while stringifying object.'' @ blank_line @ message error))
      | Inr json \<Rightarrow> Inr json)"

section \<open>parse\<close>

text \<open>
  The test of lines 288 to 293, negated: the node is taken for a serialized object.
\<close>

definition is_serialized :: "host \<Rightarrow> state \<Rightarrow> jsval \<Rightarrow> bool" where
  "is_serialized H st v =
     (\<not> (typeof v \<noteq> ''object'' \<or>
         v = Null \<or>
         \<not> has_property H v (serializedObjectIdentifier (this_conf st)) \<or>
         length (own_keys v) > 1))"

text \<open>
  The destructuring of lines 297 to 299. The property read is the own one; an inherited
  one is a function or a prototype object, or the length of an array, none of which has
  a \<^verbatim>\<open>version\<close>, a \<^verbatim>\<open>type\<close> or a \<^verbatim>\<open>value\<close>. Destructuring \<^verbatim>\<open>null\<close> throws.
\<close>

definition destructure :: "jsval option \<Rightarrow> jserror + (jsval \<times> jsval \<times> jsval)" where
  "destructure p =
     (case p of
        None \<Rightarrow> Inr (Undefined, Undefined, Undefined)
      | Some inner \<Rightarrow>
          (if inner = Null
           then Inl (Thrown TypeError (''Cannot read property '' @ quoted ''version'' @ '' of null''))
           else if inner = Undefined
           then Inl (Thrown TypeError (''Cannot read property '' @ quoted ''version'' @ '' of undefined''))
           else Inr (field inner ''version'', field inner ''type'', field inner ''value'')))"

text \<open>
  Lines 309 to 319, the \<^verbatim>\<open>switch\<close> on the version: \<^verbatim>\<open>case 1\<close> compares with
  \<^verbatim>\<open>===\<close>, and every other value throws.
\<close>

definition check_version :: "jsval \<Rightarrow> jserror option" where
  "check_version version =
     (if version = Num (Finite 1) then None
      else (case to_display version of
              Inl e \<Rightarrow> Some e
            | Inr d \<Rightarrow> Some (Thrown Error (''Unsupported serialization version '' @ quoted d @ ''.''))))"

text \<open>Lines 324 to 330: the plugin's \<^verbatim>\<open>deserialize\<close>, its error wrapped likewise.\<close>

definition call_deserialize :: "plugin \<Rightarrow> jsval \<Rightarrow> string \<Rightarrow> jsval \<Rightarrow> jserror + jsval" where
  "call_deserialize matchingPlugin constructorName key serializedValue =
     (case deserialize matchingPlugin key serializedValue of
        Inr deserializedValue \<Rightarrow> Inr deserializedValue
      | Inl error \<Rightarrow>
          (case to_display constructorName of
             Inl e \<Rightarrow> Inl e
           | Inr d \<Rightarrow>
               Inl (Thrown EvalError
                 (''Error while deserializing type '' @ quoted d @ ''.'' @
                  blank_line @ message error))))"

text \<open>Lines 332 to 341: the reviver of the caller, if there is one.\<close>

definition call_reviver :: "hook option \<Rightarrow> string \<Rightarrow> jsval \<Rightarrow> jserror + jsval" where
  "call_reviver reviver key deserializedValue =
     (case reviver of
        None \<Rightarrow> Inr deserializedValue
      | Some r \<Rightarrow>
          (case r key deserializedValue of
             Inr revived \<Rightarrow> Inr revived
           | Inl error \<Rightarrow>
               (case to_display deserializedValue of
                  Inl e \<Rightarrow> Inl e
                | Inr d \<Rightarrow>
                    Inl (Thrown EvalError
                      (''An error occured while calling the reviver function on key='' @
                       quoted key @ '' and '' @ quoted d @ ''.'')))))"

text \<open>The arrow function that \<^verbatim>\<open>parse\<close> passes to \<^verbatim>\<open>JSON.parse\<close> (lines 286 to 345).\<close>

definition parse_reviver :: "host \<Rightarrow> state \<Rightarrow> hook option \<Rightarrow> string \<Rightarrow> jsval \<Rightarrow> jserror + jsval" where
  "parse_reviver H st reviver key v =
     (if \<not> is_serialized H st v then Inr v
      else
        (case destructure (own_property v (serializedObjectIdentifier (this_conf st))) of
           Inl e \<Rightarrow> Inl e
         | Inr (version, constructorName, serializedValue) \<Rightarrow>
             (case plugins_get (plugins st) constructorName of
                None \<Rightarrow> Inr serializedValue
              | Some matchingPlugin \<Rightarrow>
                  (case check_version version of
                     Some e \<Rightarrow> Inl e
                   | None \<Rightarrow>
                       (case call_deserialize matchingPlugin constructorName key serializedValue of
                          Inl e \<Rightarrow> Inl e
                        | Inr deserializedValue \<Rightarrow> call_reviver reviver key deserializedValue)))))"

definition parse :: "host \<Rightarrow> state \<Rightarrow> json_text \<Rightarrow> hook option \<Rightarrow> jserror + jsval" where
  "parse H st t reviver =
     (case JSON_parse (parse_reviver H st reviver) t of
        Inl error \<Rightarrow>
          Inl (Thrown EvalError (''Error while parsing object.'' @ blank_line @ message error))
      | Inr object \<Rightarrow> Inr object)"


section \<open>Auxiliary notions for the statements\<close>

text \<open>The value that a JSON tree denotes.\<close>

fun from_json :: "json \<Rightarrow> jsval" where
  "from_json JNull = Null"
| "from_json (JBool b) = Bool b"
| "from_json (JNum i) = Num (Finite i)"
| "from_json (JStr s) = Str s"
| "from_json (JArr js) = Arr (map from_json js)"
| "from_json (JObj ms) = Obj (map (\<lambda>(k, j). (k, from_json j)) ms)"

text \<open>\<open>all_nodes P j\<close>: \<open>P\<close> holds of \<open>j\<close> and of every tree nested in it.\<close>

fun all_nodes :: "(json \<Rightarrow> bool) \<Rightarrow> json \<Rightarrow> bool" where
  "all_nodes P (JArr js) = (P (JArr js) \<and> (\<forall>x \<in> set js. all_nodes P x))"
| "all_nodes P (JObj ms) = (P (JObj ms) \<and> (\<forall>(k, x) \<in> set ms. all_nodes P x))"
| "all_nodes P j = P j"

text \<open>\<open>fits d j\<close>: rendering \<open>j\<close> needs no more than \<open>d\<close> frames of the stack.\<close>

fun fits :: "nat \<Rightarrow> json \<Rightarrow> bool" where
  "fits 0 j = False"
| "fits (Suc d) (JArr js) = (\<forall>x \<in> set js. fits d x)"
| "fits (Suc d) (JObj ms) = (\<forall>(k, x) \<in> set ms. fits d x)"
| "fits (Suc d) j = True"

text \<open>No plugin is registered for the identifier of the value that \<open>j\<close> denotes.\<close>

definition unclaimed :: "state \<Rightarrow> json \<Rightarrow> bool" where
  "unclaimed st j =
     (case classify (from_json j) of
        Inl e \<Rightarrow> False
      | Inr c \<Rightarrow> plugins_get (plugins st) c = None)"

text \<open>The text of a serialized object, and a document with one tree put somewhere in it.\<close>

definition serialized_json :: "string \<Rightarrow> json \<Rightarrow> json \<Rightarrow> json \<Rightarrow> json" where
  "serialized_json identifier v c x =
     JObj [(identifier, JObj [(''version'', v), (''type'', c), (''value'', x)])]"

datatype json_context =
    Here
  | InArray "json list" json_context "json list"
  | InObject "(string \<times> json) list" string json_context "(string \<times> json) list"

fun plug :: "json_context \<Rightarrow> json \<Rightarrow> json" where
  "plug Here j = j"
| "plug (InArray before c after) j = JArr (before @ plug c j # after)"
| "plug (InObject before k c after) j = JObj (before @ (k, plug c j) # after)"

text \<open>The allocated part of the heap holds \<^verbatim>\<open>this.conf\<close>.\<close>

definition conf_allocated :: "state \<Rightarrow> bool" where
  "conf_allocated st = (conf st < next_addr st)"

subsection \<open>Example plugins and instances\<close>

text \<open>
  A plugin in the manner of the bundled one for \<^verbatim>\<open>Set\<close>: \<^verbatim>\<open>Array.from(set)\<close> one way,
  \<^verbatim>\<open>new Set(array)\<close> the other.
\<close>

definition set_of :: "jsval list \<Rightarrow> jsval" where
  "set_of xs = Inst ''Set'' ''[object Set]'' None [] (Arr xs)"

definition set_plugin :: plugin where
  "set_plugin = \<lparr>
     name = ''Set'',
     serialize = (\<lambda>key v. case v of Inst c s t ps x \<Rightarrow> Inr x | _ \<Rightarrow> Inr (Arr [])),
     deserialize = (\<lambda>key x. Inr (Inst ''Set'' ''[object Set]'' None [] x)) \<rparr>"

text \<open>A second plugin for the same identifier, which keeps nothing of the set.\<close>

definition empty_set_plugin :: plugin where
  "empty_set_plugin = \<lparr>
     name = ''Set'',
     serialize = (\<lambda>key v. Inr (Arr [])),
     deserialize = (\<lambda>key x. Inr (Inst ''Set'' ''[object Set]'' None [] (Arr []))) \<rparr>"

text \<open>A fresh instance after \<^verbatim>\<open>use(set_plugin)\<close>.\<close>

definition set_serializer :: state where
  "set_serializer = snd (use new_serializer (OnePlugin set_plugin))"

text \<open>
  Instances whose configuration differs from the default one, as
  \<^verbatim>\<open>setConfig('allowPluginsOverwrite', true)\<close> and
  \<^verbatim>\<open>setConfig('serializedObjectIdentifier', 'toString')\<close> leave them.
\<close>

definition configured :: "configuration \<Rightarrow> state \<Rightarrow> state" where
  "configured c st = st\<lparr>heap := (heap st)(conf st := c)\<rparr>"

definition overwriting_serializer :: state where
  "overwriting_serializer =
     configured (default_configuration\<lparr>allowPluginsOverwrite := True\<rparr>) set_serializer"

definition toString_serializer :: state where
  "toString_serializer =
     configured (default_configuration\<lparr>serializedObjectIdentifier := ''toString''\<rparr>) set_serializer"

text \<open>A hook that always throws.\<close>

definition failing_hook :: "string \<Rightarrow> hook" where
  "failing_hook m = (\<lambda>key v. Inl (Thrown Error m))"

text \<open>
  A plugin for both infinities, registered under the identifier that the code gives to
  \<^verbatim>\<open>Infinity\<close>:
  \<^verbatim>\<open>createPlugin('infinity', (k, v) => (v === -Infinity ? '-' : '+'),
    (k, v) => (v === '-' ? -Infinity : Infinity))\<close>.
\<close>

definition infinity_plugin :: plugin where
  "infinity_plugin = \<lparr>
     name = ''infinity'',
     serialize = (\<lambda>key v. Inr (Str (if v = Num NegInfinity then ''-'' else ''+''))),
     deserialize = (\<lambda>key x. Inr (Num (if x = Str ''-'' then NegInfinity else PosInfinity))) \<rparr>"

definition infinity_serializer :: state where
  "infinity_serializer = snd (use new_serializer (OnePlugin infinity_plugin))"

text \<open>
  Dates. The instant is a number of milliseconds; how the host writes an instant, as
  the ISO string that \<^verbatim>\<open>toJSON()\<close> returns and as the string of \<^verbatim>\<open>toString()\<close>, is
  given by \<open>iso_of\<close> and \<open>shown\<close>. \<^verbatim>\<open>new Date(ms)\<close> is a valid date within 8.64e15
  milliseconds of the epoch and the invalid date otherwise. The plugin, in the manner
  of the bundled one for \<^verbatim>\<open>Date\<close>:
  \<^verbatim>\<open>createPlugin('Date', (k, v) => v.getTime(),
    (k, v) => new Date(typeof v === 'number' ? v : NaN))\<close>.
\<close>

definition date_of :: "(int \<Rightarrow> string) \<Rightarrow> (int \<Rightarrow> string) \<Rightarrow> int \<Rightarrow> jsval" where
  "date_of iso_of shown ms = Inst ''Date'' (shown ms) (Some (Str (iso_of ms))) [] (Num (Finite ms))"

definition invalid_date :: jsval where
  "invalid_date = Inst ''Date'' ''Invalid Date'' (Some Null) [] (Num NaN)"

definition date_plugin :: "(int \<Rightarrow> string) \<Rightarrow> (int \<Rightarrow> string) \<Rightarrow> plugin" where
  "date_plugin iso_of shown = \<lparr>
     name = ''Date'',
     serialize = (\<lambda>key v.
       case v of
         Inst c s t ps x \<Rightarrow>
           if c = ''Date'' then Inr x
           else Inl (Thrown TypeError ''v.getTime is not a function'')
       | _ \<Rightarrow> Inl (Thrown TypeError ''v.getTime is not a function'')),
     deserialize = (\<lambda>key x.
       case x of
         Num (Finite ms) \<Rightarrow>
           if \<bar>ms\<bar> \<le> 8640000000000000 then Inr (date_of iso_of shown ms) else Inr invalid_date
       | _ \<Rightarrow> Inr invalid_date) \<rparr>"

definition date_serializer :: "(int \<Rightarrow> string) \<Rightarrow> (int \<Rightarrow> string) \<Rightarrow> state" where
  "date_serializer iso_of shown = snd (use new_serializer (OnePlugin (date_plugin iso_of shown)))"


section \<open>Basic facts\<close>

lemma show_nat_digit: "n < 10 \<Longrightarrow> show_nat n = [''0123456789'' ! n]"
  by (simp add: show_nat.simps)

lemma JSON_serialize_property_unfold:
  "JSON_serialize_property d f key v =
     (if d = 0 then Inl (Thrown RangeError ''Maximum call stack size exceeded'')
      else
        (case f key (apply_toJSON v) of
           Inl e \<Rightarrow> Inl e
         | Inr Undefined \<Rightarrow> Inr None
         | Inr Null \<Rightarrow> Inr (Some JNull)
         | Inr (Bool b) \<Rightarrow> Inr (Some (JBool b))
         | Inr (Num (Finite i)) \<Rightarrow> Inr (Some (JNum i))
         | Inr (Num _) \<Rightarrow> Inr (Some JNull)
         | Inr (BigInt i) \<Rightarrow> Inl (Thrown TypeError ''Do not know how to serialize a BigInt'')
         | Inr (Str s) \<Rightarrow> Inr (Some (JStr s))
         | Inr (Arr xs) \<Rightarrow>
             (case JSON_serialize_array (d - 1) f 0 xs of
                Inl e \<Rightarrow> Inl e
              | Inr js \<Rightarrow> Inr (Some (JArr js)))
         | Inr (Obj kvs) \<Rightarrow>
             (case JSON_serialize_object (d - 1) f kvs of
                Inl e \<Rightarrow> Inl e
              | Inr ms \<Rightarrow> Inr (Some (JObj ms)))
         | Inr (Inst c s t ps x) \<Rightarrow>
             (case JSON_serialize_object (d - 1) f ps of
                Inl e \<Rightarrow> Inl e
              | Inr ms \<Rightarrow> Inr (Some (JObj ms)))))"
proof (cases d)
  case 0
  then show ?thesis by simp
next
  case (Suc n)
  show ?thesis unfolding Suc diff_Suc_1 by simp
qed

lemma this_conf_plugins_update [simp]: "this_conf (st\<lparr>plugins := r\<rparr>) = this_conf st"
  by (simp add: this_conf_def)

lemma this_conf_use [simp]:
  "this_conf (snd (use st x)) = this_conf st"
  "this_conf (snd (use_each st xs)) = this_conf st"
  by (induction st x and st xs rule: use_use_each.induct) (auto split: prod.splits option.splits)

lemma conf_next_use [simp]:
  "conf (snd (use st x)) = conf st \<and> next_addr (snd (use st x)) = next_addr st"
  "conf (snd (use_each st xs)) = conf st \<and> next_addr (snd (use_each st xs)) = next_addr st"
  by (induction st x and st xs rule: use_use_each.induct) (auto split: prod.splits option.splits)

lemma set_serializer_simps:
  "plugins set_serializer = [''Set'' \<mapsto> set_plugin]"
  "this_conf set_serializer = default_configuration"
  "conf set_serializer = 0"
  by (simp_all add: set_serializer_def new_serializer_def set_plugin_def this_conf_def)

lemma configured_simps [simp]:
  "this_conf (configured c st) = c"
  "plugins (configured c st) = plugins st"
  "conf (configured c st) = conf st"
  "next_addr (configured c st) = next_addr st"
  by (simp_all add: configured_def this_conf_def)

lemma default_identifier [simp]:
  "serializedObjectIdentifier (this_conf set_serializer) = ''_@serialized-object''"
  "serializedObjectIdentifier (this_conf new_serializer) = ''_@serialized-object''"
  by (simp_all add: set_serializer_simps default_configuration_def)
     (simp add: this_conf_def new_serializer_def default_configuration_def)

section \<open>Classification\<close>

text \<open>
  What the chain of tests gives, kind by kind: the four special cases, and the name of
  the constructor for a value of each other kind (for an object, when no own property
  shadows \<^verbatim>\<open>constructor\<close>).
\<close>

lemma classify_cases:
  "classify Undefined = Inr (Str ''undefined'')"
  "classify Null = Inr (Str ''null'')"
  "classify (Num PosInfinity) = Inr (Str ''infinity'')"
  "classify (Num NaN) = Inr (Str ''nan'')"
  "classify (Num (Finite i)) = Inr (Str ''Number'')"
  "classify (BigInt i) = Inr (Str ''BigInt'')"
  "classify (Bool b) = Inr (Str ''Boolean'')"
  "classify (Str s) = Inr (Str ''String'')"
  "classify (Arr xs) = Inr (Str ''Array'')"
  "''constructor'' \<notin> fst ` set kvs \<Longrightarrow> classify (Obj kvs) = Inr (Str ''Object'')"
  "''constructor'' \<notin> fst ` set ps \<Longrightarrow> classify (Inst c d t ps x) = Inr (Str c)"
proof -
  have shadow: "\<And>k (m :: (string \<times> jsval) list). k \<notin> fst ` set m \<Longrightarrow> map_of m k = None"
    by (simp add: map_of_eq_None_iff)
  show "classify Undefined = Inr (Str ''undefined'')"
    "classify Null = Inr (Str ''null'')"
    "classify (Num PosInfinity) = Inr (Str ''infinity'')"
    "classify (Num NaN) = Inr (Str ''nan'')"
    "classify (Num (Finite i)) = Inr (Str ''Number'')"
    "classify (BigInt i) = Inr (Str ''BigInt'')"
    "classify (Bool b) = Inr (Str ''Boolean'')"
    "classify (Str s) = Inr (Str ''String'')"
    "classify (Arr xs) = Inr (Str ''Array'')"
    "''constructor'' \<notin> fst ` set kvs \<Longrightarrow> classify (Obj kvs) = Inr (Str ''Object'')"
    "''constructor'' \<notin> fst ` set ps \<Longrightarrow> classify (Inst c d t ps x) = Inr (Str c)"
    by (simp_all add: classify_def shadow)
qed

lemma infinity_serializer_simps:
  "plugins infinity_serializer = [''infinity'' \<mapsto> infinity_plugin]"
  "serializedObjectIdentifier (this_conf infinity_serializer) = ''_@serialized-object''"
  by (simp_all add: infinity_serializer_def new_serializer_def infinity_plugin_def this_conf_def
      default_configuration_def)

text \<open>
  C3, on the code. The specification has both infinities classified as \<^verbatim>\<open>infinity\<close>,
  never as a generic number. The code compares with \<^verbatim>\<open>Infinity\<close> only (line 219), so
  negative infinity falls through to \<^verbatim>\<open>source.constructor.name\<close> and is classified as
  \<^verbatim>\<open>Number\<close>. With a plugin registered for \<^verbatim>\<open>infinity\<close>, \<^verbatim>\<open>stringify(Infinity)\<close> goes
  through the plugin, while \<^verbatim>\<open>stringify(-Infinity)\<close> passes the plugin by: the replacer
  returns the number as it is and the format layer renders it as \<^verbatim>\<open>null\<close>.
\<close>

theorem negative_infinity_lost:
  "plugins infinity_serializer ''infinity'' = Some infinity_plugin \<and>
   classify (Num PosInfinity) = Inr (Str ''infinity'') \<and>
   stringify es_host infinity_serializer (Num PosInfinity) None =
     Inr (Some (serialized_json ''_@serialized-object'' (JNum 1) (JStr ''infinity'') (JStr ''+''))) \<and>
   classify (Num NegInfinity) = Inr (Str ''Number'') \<and>
   stringify_replacer infinity_serializer None [] (Num NegInfinity) = Inr (Num NegInfinity) \<and>
   stringify es_host infinity_serializer (Num NegInfinity) None = Inr (Some JNull)"
proof -
  have reg: "plugins infinity_serializer ''infinity'' = Some infinity_plugin"
    by (simp add: infinity_serializer_simps)
  have pos: "stringify es_host infinity_serializer (Num PosInfinity) None =
     Inr (Some (serialized_json ''_@serialized-object'' (JNum 1) (JStr ''infinity'') (JStr ''+'')))"
    by (simp add: stringify_def JSON_stringify_def es_host_def JSON_serialize_property_unfold
        stringify_replacer_def call_replacer_def call_serialize_def classify_def plugins_get_def
        infinity_serializer_simps infinity_plugin_def apply_toJSON_def serialized_object_def
        serialized_json_def)
  have cls: "classify (Num NegInfinity) = Inr (Str ''Number'')"
    by (simp add: classify_def)
  have rep: "stringify_replacer infinity_serializer None [] (Num NegInfinity) = Inr (Num NegInfinity)"
    by (simp add: stringify_replacer_def call_replacer_def cls plugins_get_def
        infinity_serializer_simps)
  have neg: "stringify es_host infinity_serializer (Num NegInfinity) None = Inr (Some JNull)"
    by (simp add: stringify_def JSON_stringify_def es_host_def JSON_serialize_property_unfold
        rep apply_toJSON_def)
  from reg pos cls rep neg show ?thesis
    by (simp add: classify_def)
qed

section \<open>Registration\<close>

lemma use_one_success:
  "use st (OnePlugin p) = (None, st') \<Longrightarrow> st' = st\<lparr>plugins := (plugins st)(name p \<mapsto> p)\<rparr>"
  by (simp split: if_splits)

lemma use_each_Cons_success:
  "use_each st (x # xs) = (None, st1) \<Longrightarrow>
   \<exists>st'. use st x = (None, st') \<and> use_each st' xs = (None, st1)"
  by (cases "use st x") (auto split: option.splits)

lemma dom_plugins_use:
  "dom (plugins st) \<subseteq> dom (plugins (snd (use st x)))"
  "dom (plugins st) \<subseteq> dom (plugins (snd (use_each st xs)))"
proof (induction st x and st xs rule: use_use_each.induct)
  case (5 st p ps)
  show ?case
  proof (cases "use st p")
    case (Pair r st')
    show ?thesis
    proof (cases r)
      case None
      with Pair 5 show ?thesis by fastforce
    next
      case (Some e)
      with Pair 5 show ?thesis by simp
    qed
  qed
qed (auto simp: dom_def)

lemma use_each_append_failure:
  "use_each st pre = (None, st1) \<Longrightarrow> use st1 x = (Some e, st2) \<Longrightarrow>
   use_each st (pre @ x # rest) = (Some e, st2)"
proof (induction pre arbitrary: st)
  case Nil
  then show ?case by simp
next
  case (Cons p pre)
  then show ?case
    by (cases "use st p") (auto split: option.splits)
qed

lemma use_each_plugins:
  "use_each st (map OnePlugin ps) = (None, st1) \<Longrightarrow>
   st1 = st\<lparr>plugins := fold (\<lambda>p reg. reg(name p \<mapsto> p)) ps (plugins st)\<rparr>"
proof (induction ps arbitrary: st)
  case Nil
  then show ?case by simp
next
  case (Cons p ps)
  from Cons.prems obtain st' where a: "use st (OnePlugin p) = (None, st')"
    and b: "use_each st' (map OnePlugin ps) = (None, st1)"
    using use_each_Cons_success [of st "OnePlugin p" "map OnePlugin ps" st1] by auto
  have c: "st' = st\<lparr>plugins := (plugins st)(name p \<mapsto> p)\<rparr>"
    using use_one_success [OF a] .
  show ?case
    using Cons.IH [OF b] by (simp add: c)
qed

lemma use_each_registers:
  "use_each st (map OnePlugin ps) = (None, st1) \<Longrightarrow> p \<in> set ps \<Longrightarrow> name p \<in> dom (plugins st1)"
proof (induction ps arbitrary: st)
  case Nil
  then show ?case by simp
next
  case (Cons q ps)
  show ?case
  proof (cases "p = q")
    case True
    from Cons.prems(1) obtain st' where a: "use st (OnePlugin q) = (None, st')"
      and b: "use_each st' (map OnePlugin ps) = (None, st1)"
      using use_each_Cons_success [of st "OnePlugin q" "map OnePlugin ps" st1] by auto
    from use_one_success [OF a] have "name q \<in> dom (plugins st')" by simp
    moreover have "dom (plugins st') \<subseteq> dom (plugins st1)"
      using dom_plugins_use(2) [of st' "map OnePlugin ps"] b by simp
    ultimately show ?thesis using True by blast
  next
    case False
    from Cons.prems(1) obtain st' where b: "use_each st' (map OnePlugin ps) = (None, st1)"
      using use_each_Cons_success [of st "OnePlugin q" "map OnePlugin ps" st1] by auto
    from Cons.IH [OF b] Cons.prems(2) False show ?thesis by simp
  qed
qed

text \<open>
  C4. When a plugin is registered under an identifier that is already present: with
  \<^verbatim>\<open>allowPluginsOverwrite\<close> false the call throws an Error and leaves the state as it
  was, the earlier plugin still registered; with it true the call returns, the new
  plugin replaces the earlier one, and the replacer of \<^verbatim>\<open>stringify\<close> serializes a value
  of that identifier with the new plugin.
\<close>

theorem use_duplicate:
  assumes "plugins st (name p) = Some q"
  shows "(\<not> allowPluginsOverwrite (this_conf st) \<longrightarrow>
            (\<exists>m. use st (OnePlugin p) = (Some (Thrown Error m), st)) \<and>
            plugins (snd (use st (OnePlugin p))) (name p) = Some q) \<and>
         (allowPluginsOverwrite (this_conf st) \<longrightarrow>
            use st (OnePlugin p) = (None, st\<lparr>plugins := (plugins st)(name p \<mapsto> p)\<rparr>) \<and>
            plugins (snd (use st (OnePlugin p))) (name p) = Some p \<and>
            (\<forall>key v. classify v = Inr (Str (name p)) \<longrightarrow>
               stringify_replacer (snd (use st (OnePlugin p))) None key v =
                 (case serialize p key v of
                    Inl error \<Rightarrow>
                      Inl (Thrown EvalError (''Error while serializing type '' @ quoted (name p) @ ''.'' @
                             blank_line @ message error))
                  | Inr serializedValue \<Rightarrow>
                      Inr (serialized_object (serializedObjectIdentifier (this_conf st))
                             (Str (name p)) serializedValue))))"
  using assms
  by (auto simp: stringify_replacer_def call_replacer_def call_serialize_def plugins_get_def
      this_conf_def dom_def split: sum.splits)

theorem use_duplicate_witness:
  "plugins set_serializer (name empty_set_plugin) = Some set_plugin \<and>
   \<not> allowPluginsOverwrite (this_conf set_serializer) \<and>
   fst (use set_serializer (OnePlugin empty_set_plugin)) \<noteq> None \<and>
   snd (use set_serializer (OnePlugin empty_set_plugin)) = set_serializer \<and>
   plugins overwriting_serializer (name empty_set_plugin) = Some set_plugin \<and>
   allowPluginsOverwrite (this_conf overwriting_serializer) \<and>
   fst (use overwriting_serializer (OnePlugin empty_set_plugin)) = None \<and>
   plugins (snd (use overwriting_serializer (OnePlugin empty_set_plugin))) ''Set'' = Some empty_set_plugin \<and>
   stringify_replacer (snd (use overwriting_serializer (OnePlugin empty_set_plugin))) None []
       (set_of [Null]) =
     Inr (serialized_object ''_@serialized-object'' (Str ''Set'') (Arr []))"
proof -
  have a: "plugins set_serializer (name empty_set_plugin) = Some set_plugin"
    by (simp add: set_serializer_simps empty_set_plugin_def)
  have b: "plugins overwriting_serializer (name empty_set_plugin) = Some set_plugin"
    by (simp add: overwriting_serializer_def set_serializer_simps empty_set_plugin_def)
  have c: "classify (set_of [Null]) = Inr (Str (name empty_set_plugin))"
    by (simp add: classify_def set_of_def empty_set_plugin_def)
  have d: "\<not> allowPluginsOverwrite (this_conf set_serializer)"
    by (simp add: set_serializer_simps default_configuration_def)
  have e: "allowPluginsOverwrite (this_conf overwriting_serializer)"
    by (simp add: overwriting_serializer_def)
  have f: "serializedObjectIdentifier (this_conf overwriting_serializer) = ''_@serialized-object''"
    by (simp add: overwriting_serializer_def default_configuration_def)
  have g: "name empty_set_plugin = ''Set''" "serialize empty_set_plugin [] (set_of [Null]) = Inr (Arr [])"
    by (simp_all add: empty_set_plugin_def)
  from use_duplicate [OF a] d have 1:
    "fst (use set_serializer (OnePlugin empty_set_plugin)) \<noteq> None \<and>
     snd (use set_serializer (OnePlugin empty_set_plugin)) = set_serializer"
    by auto
  from use_duplicate [OF b] e c have 2:
    "fst (use overwriting_serializer (OnePlugin empty_set_plugin)) = None \<and>
     plugins (snd (use overwriting_serializer (OnePlugin empty_set_plugin))) ''Set'' = Some empty_set_plugin \<and>
     stringify_replacer (snd (use overwriting_serializer (OnePlugin empty_set_plugin))) None []
       (set_of [Null]) =
     Inr (serialized_object ''_@serialized-object'' (Str ''Set'') (Arr []))"
    by (simp add: f g)
  from a b d e 1 2 show ?thesis by blast
qed

text \<open>
  C10. \<^verbatim>\<open>use\<close> on an array registers its plugins one at a time, in order. When the
  plugins \<open>ps\<close> at the front are registered and the element \<open>x\<close> after them throws, the
  call throws that error and ends in the state that \<open>x\<close> left: the registry holds the
  plugins of \<open>ps\<close>, each under its name (a later one of the same name over an earlier
  one), and they are still registered in the final state; nothing is rolled back. When
  \<open>x\<close> is a single plugin, the final state is the one reached after \<open>ps\<close>.
\<close>

theorem use_array_not_rolled_back:
  assumes "use_each st (map OnePlugin ps) = (None, st1)"
    and "use st1 x = (Some e, st2)"
  shows "use st (ManyPlugins (map OnePlugin ps @ x # rest)) = (Some e, st2) \<and>
         plugins st1 = fold (\<lambda>p reg. reg(name p \<mapsto> p)) ps (plugins st) \<and>
         (\<forall>p \<in> set ps. name p \<in> dom (plugins st1) \<and> name p \<in> dom (plugins st2)) \<and>
         (\<forall>q. x = OnePlugin q \<longrightarrow> st2 = st1)"
proof -
  have 1: "use st (ManyPlugins (map OnePlugin ps @ x # rest)) = (Some e, st2)"
    using use_each_append_failure [OF assms] by simp
  have 2: "plugins st1 = fold (\<lambda>p reg. reg(name p \<mapsto> p)) ps (plugins st)"
    using use_each_plugins [OF assms(1)] by simp
  have 3: "dom (plugins st1) \<subseteq> dom (plugins st2)"
    using dom_plugins_use(1) [of st1 x] assms(2) by simp
  have 4: "\<forall>p \<in> set ps. name p \<in> dom (plugins st1) \<and> name p \<in> dom (plugins st2)"
    using use_each_registers [OF assms(1)] 3 by blast
  have 5: "\<forall>q. x = OnePlugin q \<longrightarrow> st2 = st1"
    using assms(2) by (auto split: if_splits)
  from 1 2 4 5 show ?thesis by blast
qed

theorem use_array_not_rolled_back_witness:
  "use_each new_serializer (map OnePlugin [set_plugin]) = (None, set_serializer) \<and>
   fst (use set_serializer (OnePlugin empty_set_plugin)) \<noteq> None \<and>
   snd (use new_serializer (ManyPlugins [OnePlugin set_plugin, OnePlugin empty_set_plugin])) = set_serializer \<and>
   plugins set_serializer ''Set'' = Some set_plugin"
proof -
  have a: "use_each new_serializer (map OnePlugin [set_plugin]) = (None, set_serializer)"
    by (simp add: set_serializer_def new_serializer_def)
  obtain e where b: "use set_serializer (OnePlugin empty_set_plugin) = (Some e, set_serializer)"
    by (simp add: set_serializer_simps empty_set_plugin_def default_configuration_def)
  have t: "use new_serializer (ManyPlugins (map OnePlugin [set_plugin] @ OnePlugin empty_set_plugin # [])) =
           (Some e, set_serializer)"
    using use_array_not_rolled_back [OF a b, of "[]"] by blast
  have u: "map OnePlugin [set_plugin] @ OnePlugin empty_set_plugin # [] =
           [OnePlugin set_plugin, OnePlugin empty_set_plugin]"
    by simp
  have c: "snd (use new_serializer (ManyPlugins [OnePlugin set_plugin, OnePlugin empty_set_plugin])) =
           set_serializer"
    using t unfolding u by (simp only: snd_conv)
  have d: "fst (use set_serializer (OnePlugin empty_set_plugin)) \<noteq> None"
    using b by (simp only: fst_conv option.distinct not_False_eq_True)
  have e: "plugins set_serializer ''Set'' = Some set_plugin"
    by (simp add: set_serializer_simps)
  from a c d e show ?thesis by blast
qed

section \<open>Configuration\<close>

text \<open>
  \<^verbatim>\<open>this.conf\<close> is allocated in a new instance, and stays so under every operation.
\<close>

lemma conf_allocated_new: "conf_allocated new_serializer"
  by (simp add: conf_allocated_def new_serializer_def)

lemma conf_allocated_getConfig: "conf_allocated st \<Longrightarrow> conf_allocated (snd (getConfig st))"
  by (simp add: conf_allocated_def getConfig_def)

lemma conf_allocated_use: "conf_allocated st \<Longrightarrow> conf_allocated (snd (use st x))"
  by (simp add: conf_allocated_def)

lemma write_objects_frame:
  "conf (write_objects a fs st) = conf st"
  "next_addr (write_objects a fs st) = next_addr st"
  "plugins (write_objects a fs st) = plugins st"
  "c \<noteq> a \<Longrightarrow> heap (write_objects a fs st) c = heap st c"
  unfolding write_objects_def
  by (induction fs arbitrary: st) (simp_all add: write_object_def)

lemma conf_allocated_write: "conf_allocated st \<Longrightarrow> conf_allocated (write_objects a fs st)"
  by (simp add: conf_allocated_def write_objects_frame)

text \<open>
  C7. \<^verbatim>\<open>getConfig()\<close> returns the address \<open>a\<close> of a new object, not that of
  \<^verbatim>\<open>this.conf\<close>, holding the stored values. Whatever sequence \<open>fs\<close> of writes the
  caller applies to the object at \<open>a\<close>, the stored configuration is unchanged, and the
  object that the next \<^verbatim>\<open>getConfig()\<close> returns holds the stored values.
\<close>

theorem getConfig_returns_copy:
  assumes "conf_allocated st"
    and "getConfig st = (a, st1)"
    and "getConfig (write_objects a fs st1) = (b, st3)"
  shows "a \<noteq> conf st \<and>
         heap st1 a = this_conf st \<and>
         this_conf st1 = this_conf st \<and>
         this_conf (write_objects a fs st1) = this_conf st \<and>
         heap st3 b = this_conf st \<and>
         this_conf st3 = this_conf st"
proof -
  from assms(2) have a: "a = next_addr st"
    and st1: "st1 = st\<lparr>heap := (heap st)(next_addr st := this_conf st), next_addr := Suc (next_addr st)\<rparr>"
    by (auto simp: getConfig_def)
  from assms(1) a have ne: "conf st \<noteq> a"
    by (simp add: conf_allocated_def)
  have c1: "conf st1 = conf st" "next_addr st1 = Suc a"
    by (simp_all add: st1 a)
  have h1: "heap st1 a = this_conf st" "this_conf st1 = this_conf st"
    using ne by (simp_all add: st1 a this_conf_def)
  let ?st2 = "write_objects a fs st1"
  have c2: "conf ?st2 = conf st" "next_addr ?st2 = Suc a"
    by (simp_all add: write_objects_frame c1)
  have h2: "this_conf ?st2 = this_conf st"
    using ne h1(2) write_objects_frame(4) [of "conf st" a fs st1]
    by (simp add: this_conf_def c2 c1)
  from assms(3) have b: "b = Suc a"
    and st3: "st3 = ?st2\<lparr>heap := (heap ?st2)(next_addr ?st2 := this_conf ?st2), next_addr := Suc (next_addr ?st2)\<rparr>"
    by (auto simp: getConfig_def c2)
  have h3: "heap st3 b = this_conf st"
    by (simp add: st3 b c2 h2)
  have "conf st3 = conf st" by (simp add: st3 c2)
  moreover have "conf st \<noteq> Suc a" using assms(1) a by (simp add: conf_allocated_def)
  ultimately have h4: "this_conf st3 = this_conf st"
    using h2 by (simp add: this_conf_def st3 c2)
  from ne h1 h2 h3 h4 show ?thesis by simp
qed

theorem getConfig_returns_copy_witness:
  "conf_allocated new_serializer \<and>
   getConfig new_serializer = (1, snd (getConfig new_serializer)) \<and>
   fst (getConfig (write_objects 1 [\<lambda>c. c\<lparr>allowPluginsOverwrite := True\<rparr>,
                                     \<lambda>c. c\<lparr>serializedObjectIdentifier := ''x''\<rparr>]
                      (snd (getConfig new_serializer)))) = 2 \<and>
   heap (write_objects 1 [\<lambda>c. c\<lparr>allowPluginsOverwrite := True\<rparr>,
                          \<lambda>c. c\<lparr>serializedObjectIdentifier := ''x''\<rparr>]
           (snd (getConfig new_serializer))) 1 \<noteq> default_configuration \<and>
   heap (snd (getConfig (write_objects 1 [\<lambda>c. c\<lparr>allowPluginsOverwrite := True\<rparr>,
                                          \<lambda>c. c\<lparr>serializedObjectIdentifier := ''x''\<rparr>]
                           (snd (getConfig new_serializer))))) 2 = default_configuration"
proof -
  let ?fs = "[\<lambda>c. c\<lparr>allowPluginsOverwrite := True\<rparr>, \<lambda>c. c\<lparr>serializedObjectIdentifier := ''x''\<rparr>]"
  let ?st1 = "snd (getConfig new_serializer)"
  have a: "getConfig new_serializer = (1, ?st1)"
    by (simp add: getConfig_def new_serializer_def)
  have b: "fst (getConfig (write_objects 1 ?fs ?st1)) = 2"
    by (simp add: getConfig_def write_objects_frame new_serializer_def)
  then have c: "getConfig (write_objects 1 ?fs ?st1) = (2, snd (getConfig (write_objects 1 ?fs ?st1)))"
    by (metis prod.collapse)
  have d: "heap (write_objects 1 ?fs ?st1) 1 \<noteq> default_configuration"
    by (simp add: write_objects_def write_object_def getConfig_def new_serializer_def
        this_conf_def default_configuration_def)
  have e: "this_conf new_serializer = default_configuration"
    by (simp add: this_conf_def new_serializer_def)
  from getConfig_returns_copy [OF conf_allocated_new a c] a b d e conf_allocated_new
  show ?thesis by simp
qed

section \<open>The reviver of parse\<close>

lemma not_serialized_primitive [simp]:
  "\<not> is_serialized H st Undefined"
  "\<not> is_serialized H st Null"
  "\<not> is_serialized H st (Bool b)"
  "\<not> is_serialized H st (Num n)"
  "\<not> is_serialized H st (BigInt i)"
  "\<not> is_serialized H st (Str s)"
  by (simp_all add: is_serialized_def)

lemma not_serialized_many_keys:
  "1 < length (own_keys v) \<Longrightarrow> \<not> is_serialized H st v"
  by (simp add: is_serialized_def)

lemma is_serialized_single [simp]:
  "is_serialized H st (Obj [(serializedObjectIdentifier (this_conf st), inner)])"
  by (simp add: is_serialized_def)

lemma parse_reviver_unchanged:
  "\<not> is_serialized H st v \<Longrightarrow> parse_reviver H st reviver key v = Inr v"
  by (simp add: parse_reviver_def)

lemma parse_reviver_single:
  "inner \<noteq> Null \<Longrightarrow> inner \<noteq> Undefined \<Longrightarrow>
   parse_reviver H st reviver key (Obj [(serializedObjectIdentifier (this_conf st), inner)]) =
     (case plugins_get (plugins st) (field inner ''type'') of
        None \<Rightarrow> Inr (field inner ''value'')
      | Some matchingPlugin \<Rightarrow>
          (case check_version (field inner ''version'') of
             Some e \<Rightarrow> Inl e
           | None \<Rightarrow>
               (case call_deserialize matchingPlugin (field inner ''type'') key (field inner ''value'') of
                  Inl e \<Rightarrow> Inl e
                | Inr deserializedValue \<Rightarrow> call_reviver reviver key deserializedValue)))"
  by (simp add: parse_reviver_def destructure_def)

text \<open>
  The text of a serialized object with a version number and a string for its type,
  internalized: the three members are visited first and stay as they are (the inner
  object has more than one key), then the reviver is called on the object.
\<close>

lemma internalize_serialized_json:
  assumes "JSON_internalize (parse_reviver H st reviver) ''value'' x = Inr xv"
  shows "JSON_internalize (parse_reviver H st reviver) key
           (serialized_json (serializedObjectIdentifier (this_conf st)) (JNum n) (JStr c) x) =
         parse_reviver H st reviver key
           (Obj [(serializedObjectIdentifier (this_conf st),
                  Obj ((''version'', Num (Finite n)) # (''type'', Str c) #
                       (if xv = Undefined then [] else [(''value'', xv)])))])"
  using assms
  by (simp add: serialized_json_def parse_reviver_unchanged not_serialized_many_keys)

lemma internalize_serialized_json_fails:
  assumes "JSON_internalize (parse_reviver H st reviver) ''value'' x = Inl e"
  shows "JSON_internalize (parse_reviver H st reviver) key
           (serialized_json (serializedObjectIdentifier (this_conf st)) (JNum n) (JStr c) x) = Inl e"
  using assms
  by (simp add: serialized_json_def parse_reviver_unchanged)

lemma inner_fields:
  "field (Obj ((''version'', a) # (''type'', b) # (if xv = Undefined then [] else [(''value'', xv)])))
     ''version'' = a"
  "field (Obj ((''version'', a) # (''type'', b) # (if xv = Undefined then [] else [(''value'', xv)])))
     ''type'' = b"
  "field (Obj ((''version'', a) # (''type'', b) # (if xv = Undefined then [] else [(''value'', xv)])))
     ''value'' = xv"
  by simp_all

lemma internalize_serialized_json_result:
  assumes "JSON_internalize (parse_reviver H st reviver) ''value'' x = Inr xv"
  shows "JSON_internalize (parse_reviver H st reviver) key
           (serialized_json (serializedObjectIdentifier (this_conf st)) (JNum n) (JStr c) x) =
         (case plugins st c of
            None \<Rightarrow> Inr xv
          | Some matchingPlugin \<Rightarrow>
              (case check_version (Num (Finite n)) of
                 Some e \<Rightarrow> Inl e
               | None \<Rightarrow>
                   (case call_deserialize matchingPlugin (Str c) key xv of
                      Inl e \<Rightarrow> Inl e
                    | Inr deserializedValue \<Rightarrow> call_reviver reviver key deserializedValue)))"
  unfolding internalize_serialized_json [OF assms]
  by (subst parse_reviver_single)
     (simp_all only: inner_fields plugins_get_def jsval.case jsval.distinct not_False_eq_True)

text \<open>An error raised at a tree of the document is raised by the whole traversal.\<close>

lemma internalize_array_fails:
  assumes "\<And>key. \<exists>e. JSON_internalize f key j = Inl e"
  shows "\<exists>e. JSON_internalize_array f i (before @ j # after) = Inl e"
proof (induction before arbitrary: i)
  case Nil
  from assms [of "show_nat i"] show ?case by auto
next
  case (Cons b before)
  from Cons [of "Suc i"] show ?case
    by (cases "JSON_internalize f (show_nat i) b") auto
qed

lemma internalize_object_fails:
  assumes "\<And>key. \<exists>e. JSON_internalize f key j = Inl e"
  shows "\<exists>e. JSON_internalize_object f (before @ (k, j) # after) = Inl e"
proof (induction before)
  case Nil
  from assms [of k] show ?case by auto
next
  case (Cons b before)
  obtain k' j' where b: "b = (k', j')" by (cases b)
  from Cons show ?case
    by (cases "JSON_internalize f k' j'") (auto simp: b)
qed

lemma internalize_plug_fails:
  assumes "\<And>key. \<exists>e. JSON_internalize f key j = Inl e"
  shows "\<exists>e. JSON_internalize f key (plug c j) = Inl e"
proof (induction c arbitrary: key)
  case Here
  from assms show ?case by simp
next
  case (InArray before c after)
  from internalize_array_fails [of f "plug c j" 0 before after] InArray
  show ?case by auto
next
  case (InObject before k c after)
  from internalize_object_fails [of f "plug c j" before k after] InObject
  show ?case by auto
qed

lemma check_version_number:
  "n \<noteq> 1 \<Longrightarrow> check_version (Num (Finite n)) =
     Some (Thrown Error (''Unsupported serialization version '' @ quoted (show_int n) @ ''.''))"
  by (simp add: check_version_def)

lemma internalize_bad_version:
  assumes "plugins st c = Some p" and "n \<noteq> 1"
  shows "\<exists>e. JSON_internalize (parse_reviver H st reviver) key
           (serialized_json (serializedObjectIdentifier (this_conf st)) (JNum n) (JStr c) x) = Inl e"
proof (cases "JSON_internalize (parse_reviver H st reviver) ''value'' x")
  case (Inl e)
  from internalize_serialized_json_fails [OF Inl] show ?thesis by blast
next
  case (Inr xv)
  from internalize_serialized_json_result [OF Inr] assms show ?thesis
    by (simp add: check_version_number)
qed

text \<open>
  C2, as the code has it. The version is looked at only once a plugin is found for the
  type: for a serialized object whose version is not 1 and whose type has a registered
  plugin, the reviver throws the Error \<^verbatim>\<open>Unsupported serialization version\<close>; a
  document that holds such an object anywhere makes \<^verbatim>\<open>parse\<close> throw, and when the
  object is the document, \<^verbatim>\<open>parse\<close> throws the EvalError that wraps this message.
\<close>

theorem unsupported_version:
  "(inner \<noteq> Null \<and> inner \<noteq> Undefined \<and>
    plugins_get (plugins st) (field inner ''type'') = Some p \<and>
    field inner ''version'' \<noteq> Num (Finite 1) \<and>
    to_display (field inner ''version'') = Inr d \<longrightarrow>
      parse_reviver H st reviver key (Obj [(serializedObjectIdentifier (this_conf st), inner)]) =
        Inl (Thrown Error (''Unsupported serialization version '' @ quoted d @ ''.''))) \<and>
   (plugins st c = Some p \<and> n \<noteq> 1 \<longrightarrow>
      (\<exists>m. parse H st
              (WellFormed (plug ctx
                 (serialized_json (serializedObjectIdentifier (this_conf st)) (JNum n) (JStr c) x)))
              reviver = Inl (Thrown EvalError m))) \<and>
   (plugins st c = Some p \<and> n \<noteq> 1 \<and>
    JSON_internalize (parse_reviver H st reviver) ''value'' x = Inr xv \<longrightarrow>
      parse H st
        (WellFormed (serialized_json (serializedObjectIdentifier (this_conf st)) (JNum n) (JStr c) x))
        reviver =
      Inl (Thrown EvalError (''Error while parsing object.'' @ blank_line @
             ''Unsupported serialization version '' @ quoted (show_int n) @ ''.'')))"
proof (intro conjI impI)
  assume a: "inner \<noteq> Null \<and> inner \<noteq> Undefined \<and>
    plugins_get (plugins st) (field inner ''type'') = Some p \<and>
    field inner ''version'' \<noteq> Num (Finite 1) \<and>
    to_display (field inner ''version'') = Inr d"
  then show "parse_reviver H st reviver key (Obj [(serializedObjectIdentifier (this_conf st), inner)]) =
        Inl (Thrown Error (''Unsupported serialization version '' @ quoted d @ ''.''))"
    by (simp add: parse_reviver_single check_version_def)
next
  assume a: "plugins st c = Some p \<and> n \<noteq> 1"
  have "\<And>key. \<exists>e. JSON_internalize (parse_reviver H st reviver) key
           (serialized_json (serializedObjectIdentifier (this_conf st)) (JNum n) (JStr c) x) = Inl e"
    using internalize_bad_version [of st c p n] a by blast
  from internalize_plug_fails [OF this, of "[]" ctx]
  show "\<exists>m. parse H st
              (WellFormed (plug ctx
                 (serialized_json (serializedObjectIdentifier (this_conf st)) (JNum n) (JStr c) x)))
              reviver = Inl (Thrown EvalError m)"
    by (auto simp: parse_def JSON_parse_def)
next
  assume a: "plugins st c = Some p \<and> n \<noteq> 1 \<and>
    JSON_internalize (parse_reviver H st reviver) ''value'' x = Inr xv"
  then have b: "JSON_internalize (parse_reviver H st reviver) ''value'' x = Inr xv" by simp
  from internalize_serialized_json_result [OF b, of "[]" n c] a
  show "parse H st
        (WellFormed (serialized_json (serializedObjectIdentifier (this_conf st)) (JNum n) (JStr c) x))
        reviver =
      Inl (Thrown EvalError (''Error while parsing object.'' @ blank_line @
             ''Unsupported serialization version '' @ quoted (show_int n) @ ''.''))"
    by (simp add: parse_def JSON_parse_def check_version_number)
qed

theorem unsupported_version_witness:
  "plugins set_serializer ''Set'' = Some set_plugin \<and>
   parse_reviver es_host set_serializer None []
     (Obj [(''_@serialized-object'',
            Obj [(''version'', Num (Finite 2)), (''type'', Str ''Set''), (''value'', Num (Finite 0))])]) =
     Inl (Thrown Error (''Unsupported serialization version '' @ quoted ''2'' @ ''.'')) \<and>
   parse es_host set_serializer
     (WellFormed (serialized_json ''_@serialized-object'' (JNum 2) (JStr ''Set'') (JNum 0))) None =
     Inl (Thrown EvalError (''Error while parsing object.'' @ blank_line @
            ''Unsupported serialization version '' @ quoted ''2'' @ ''.''))"
proof -
  let ?inner = "Obj [(''version'', Num (Finite 2)), (''type'', Str ''Set''), (''value'', Num (Finite 0))]"
  have a: "plugins set_serializer ''Set'' = Some set_plugin"
    by (simp add: set_serializer_simps)
  have b: "plugins_get (plugins set_serializer) (field ?inner ''type'') = Some set_plugin"
    by (simp add: plugins_get_def a)
  have c: "to_display (field ?inner ''version'') = Inr ''2''"
    by (simp add: show_int_def show_nat_digit)
  have d: "show_int 2 = ''2''"
    by (simp add: show_int_def show_nat_digit)
  have e: "JSON_internalize (parse_reviver es_host set_serializer None) ''value'' (JNum 0) = Inr (Num (Finite 0))"
    by (simp add: parse_reviver_unchanged)
  from unsupported_version [where st = set_serializer and inner = ?inner and p = set_plugin
      and d = "''2''" and H = es_host and reviver = None and key = "[]" and c = "''Set''" and n = 2
      and x = "JNum 0" and xv = "Num (Finite 0)"] a b c d e
  show ?thesis by simp
qed

text \<open>
  C2 as the specification states it fails: with no plugin registered for the type, a
  serialized object of version 2 is parsed to its inner value and nothing is thrown.
\<close>

theorem version_unchecked_without_plugin:
  "plugins new_serializer ''widget'' = None \<and>
   parse es_host new_serializer
     (WellFormed (JObj [(''_@serialized-object'',
        JObj [(''version'', JNum 2), (''type'', JStr ''widget''), (''value'', JNum 5)])])) None =
   Inr (Num (Finite 5))"
  by (simp add: parse_def JSON_parse_def parse_reviver_def is_serialized_def destructure_def
      plugins_get_def new_serializer_def this_conf_def default_configuration_def)

text \<open>
  C5. For an object whose only key is the identifier and whose type has no registered
  plugin, the reviver returns the inner \<^verbatim>\<open>value\<close> and does not throw. So \<^verbatim>\<open>parse\<close> of
  the text of such an object returns what the traversal made of the inner value, and in
  an array the elements after the object are visited as usual.
\<close>

theorem missing_plugin_raw_value:
  "(inner \<noteq> Null \<and> inner \<noteq> Undefined \<and>
    plugins_get (plugins st) (field inner ''type'') = None \<longrightarrow>
      parse_reviver H st reviver key (Obj [(serializedObjectIdentifier (this_conf st), inner)]) =
        Inr (field inner ''value'')) \<and>
   (plugins st c = None \<and>
    JSON_internalize (parse_reviver H st reviver) ''value'' x = Inr xv \<longrightarrow>
      parse H st
        (WellFormed (serialized_json (serializedObjectIdentifier (this_conf st)) (JNum n) (JStr c) x))
        reviver = Inr xv \<and>
      JSON_internalize_array (parse_reviver H st reviver) i
        (serialized_json (serializedObjectIdentifier (this_conf st)) (JNum n) (JStr c) x # rest) =
        (case JSON_internalize_array (parse_reviver H st reviver) (Suc i) rest of
           Inl e \<Rightarrow> Inl e
         | Inr xs \<Rightarrow> Inr (xv # xs)))"
proof (intro conjI impI)
  assume "inner \<noteq> Null \<and> inner \<noteq> Undefined \<and>
    plugins_get (plugins st) (field inner ''type'') = None"
  then show "parse_reviver H st reviver key (Obj [(serializedObjectIdentifier (this_conf st), inner)]) =
        Inr (field inner ''value'')"
    by (simp add: parse_reviver_single)
next
  assume a: "plugins st c = None \<and>
    JSON_internalize (parse_reviver H st reviver) ''value'' x = Inr xv"
  then have b: "JSON_internalize (parse_reviver H st reviver) ''value'' x = Inr xv" by simp
  from internalize_serialized_json_result [OF b, of "[]" n c] a
  show "parse H st
        (WellFormed (serialized_json (serializedObjectIdentifier (this_conf st)) (JNum n) (JStr c) x))
        reviver = Inr xv"
    by (simp add: parse_def JSON_parse_def)
next
  assume a: "plugins st c = None \<and>
    JSON_internalize (parse_reviver H st reviver) ''value'' x = Inr xv"
  then have b: "JSON_internalize (parse_reviver H st reviver) ''value'' x = Inr xv" by simp
  from internalize_serialized_json_result [OF b, of "show_nat i" n c] a
  show "JSON_internalize_array (parse_reviver H st reviver) i
        (serialized_json (serializedObjectIdentifier (this_conf st)) (JNum n) (JStr c) x # rest) =
        (case JSON_internalize_array (parse_reviver H st reviver) (Suc i) rest of
           Inl e \<Rightarrow> Inl e
         | Inr xs \<Rightarrow> Inr (xv # xs))"
    by simp
qed

theorem missing_plugin_raw_value_witness:
  "plugins new_serializer ''widget'' = None \<and>
   parse_reviver es_host new_serializer None []
     (Obj [(''_@serialized-object'',
            Obj [(''version'', Num (Finite 1)), (''type'', Str ''widget''), (''value'', Num (Finite 5))])]) =
     Inr (Num (Finite 5)) \<and>
   parse es_host new_serializer
     (WellFormed (serialized_json ''_@serialized-object'' (JNum 1) (JStr ''widget'') (JNum 5))) None =
     Inr (Num (Finite 5)) \<and>
   JSON_internalize_array (parse_reviver es_host new_serializer None) 0
     [serialized_json ''_@serialized-object'' (JNum 1) (JStr ''widget'') (JNum 5), JNum 7] =
     Inr [Num (Finite 5), Num (Finite 7)]"
proof -
  let ?inner = "Obj [(''version'', Num (Finite 1)), (''type'', Str ''widget''), (''value'', Num (Finite 5))]"
  have a: "plugins new_serializer ''widget'' = None"
    by (simp add: new_serializer_def)
  have b: "plugins_get (plugins new_serializer) (field ?inner ''type'') = None"
    by (simp add: plugins_get_def a)
  have e: "JSON_internalize (parse_reviver es_host new_serializer None) ''value'' (JNum 5) = Inr (Num (Finite 5))"
    by (simp add: parse_reviver_unchanged)
  from missing_plugin_raw_value [where st = new_serializer and inner = ?inner
      and H = es_host and reviver = None and key = "[]" and c = "''widget''" and n = 1
      and x = "JNum 5" and xv = "Num (Finite 5)" and i = 0 and rest = "[JNum 7]"] a b e
  show ?thesis by (simp add: parse_reviver_unchanged)
qed

lemma own_keys_single:
  "(k \<in> set ks \<and> \<not> 1 < length ks) = (ks = [k])"
  by (cases ks) auto

text \<open>
  C6, as the code has it. When the identifier is not the name of a property that objects
  or arrays inherit, nor \<^verbatim>\<open>length\<close>, a node is taken for a serialized object exactly
  when it is a non-null object whose only own key is the identifier. Whatever the
  identifier, a node that is not taken for a serialized object is returned unchanged;
  so is every node with more than one own key, and every node that is not an object or
  is \<^verbatim>\<open>null\<close>.
\<close>

theorem serialized_test:
  "(serializedObjectIdentifier (this_conf st) \<notin> set (object_proto H) \<and>
    serializedObjectIdentifier (this_conf st) \<notin> set (array_proto H) \<and>
    serializedObjectIdentifier (this_conf st) \<noteq> ''length'' \<longrightarrow>
      is_serialized H st v =
        (typeof v = ''object'' \<and> v \<noteq> Null \<and> own_keys v = [serializedObjectIdentifier (this_conf st)])) \<and>
   (\<not> is_serialized H st v \<longrightarrow> parse_reviver H st reviver key v = Inr v) \<and>
   (1 < length (own_keys v) \<longrightarrow> parse_reviver H st reviver key v = Inr v) \<and>
   (typeof v \<noteq> ''object'' \<or> v = Null \<longrightarrow> parse_reviver H st reviver key v = Inr v)"
proof (intro conjI impI)
  assume a: "serializedObjectIdentifier (this_conf st) \<notin> set (object_proto H) \<and>
    serializedObjectIdentifier (this_conf st) \<notin> set (array_proto H) \<and>
    serializedObjectIdentifier (this_conf st) \<noteq> ''length''"
  show "is_serialized H st v =
        (typeof v = ''object'' \<and> v \<noteq> Null \<and> own_keys v = [serializedObjectIdentifier (this_conf st)])"
  proof (cases v)
    case (Arr xs)
    with a own_keys_single [of "serializedObjectIdentifier (this_conf st)" "own_keys (Arr xs)"]
    show ?thesis by (auto simp: is_serialized_def)
  next
    case (Obj kvs)
    with a own_keys_single [of "serializedObjectIdentifier (this_conf st)" "own_keys (Obj kvs)"]
    show ?thesis by (auto simp: is_serialized_def)
  next
    case (Inst c s t ps x)
    with a own_keys_single [of "serializedObjectIdentifier (this_conf st)" "own_keys (Inst c s t ps x)"]
    show ?thesis by (auto simp: is_serialized_def)
  qed (simp_all add: is_serialized_def)
next
  assume "\<not> is_serialized H st v"
  then show "parse_reviver H st reviver key v = Inr v"
    by (rule parse_reviver_unchanged)
next
  assume "1 < length (own_keys v)"
  then show "parse_reviver H st reviver key v = Inr v"
    by (simp add: parse_reviver_unchanged not_serialized_many_keys)
next
  assume "typeof v \<noteq> ''object'' \<or> v = Null"
  then show "parse_reviver H st reviver key v = Inr v"
    by (auto simp: parse_reviver_def is_serialized_def)
qed

theorem serialized_test_witness:
  "is_serialized es_host set_serializer (Obj [(''_@serialized-object'', Null)]) \<and>
   parse_reviver es_host set_serializer None []
     (Obj [(''_@serialized-object'', Num (Finite 1)), (''a'', Num (Finite 2))]) =
     Inr (Obj [(''_@serialized-object'', Num (Finite 1)), (''a'', Num (Finite 2))]) \<and>
   parse_reviver es_host set_serializer None [] (Str ''s'') = Inr (Str ''s'') \<and>
   parse_reviver es_host set_serializer None [] Null = Inr Null"
proof -
  have a: "''_@serialized-object'' \<notin> set (object_proto es_host) \<and>
           ''_@serialized-object'' \<notin> set (array_proto es_host) \<and>
           ''_@serialized-object'' \<noteq> ''length''"
    by (simp add: es_host_def)
  from serialized_test [where st = set_serializer and H = es_host
      and v = "Obj [(''_@serialized-object'', Null)]"] a
  have 1: "is_serialized es_host set_serializer (Obj [(''_@serialized-object'', Null)])"
    by simp
  from serialized_test [where st = set_serializer and H = es_host and reviver = None and key = "[]"
      and v = "Obj [(''_@serialized-object'', Num (Finite 1)), (''a'', Num (Finite 2))]"]
  have 2: "parse_reviver es_host set_serializer None []
     (Obj [(''_@serialized-object'', Num (Finite 1)), (''a'', Num (Finite 2))]) =
     Inr (Obj [(''_@serialized-object'', Num (Finite 1)), (''a'', Num (Finite 2))])"
    by simp
  from serialized_test [where st = set_serializer and H = es_host and reviver = None and key = "[]"
      and v = "Str ''s''"]
  have 3: "parse_reviver es_host set_serializer None [] (Str ''s'') = Inr (Str ''s'')"
    by simp
  from serialized_test [where st = set_serializer and H = es_host and reviver = None and key = "[]"
      and v = Null]
  have 4: "parse_reviver es_host set_serializer None [] Null = Inr Null"
    by simp
  from 1 2 3 4 show ?thesis by blast
qed

text \<open>
  C6 as the specification states it fails: \<^verbatim>\<open>in\<close> finds inherited properties. With
  the identifier \<^verbatim>\<open>toString\<close>, the object \<^verbatim>\<open>{"a": 1}\<close>, which has no property of that
  name of its own and has another property, is taken for a serialized object and
  replaced by \<^verbatim>\<open>undefined\<close>.
\<close>

theorem inherited_identifier:
  "serializedObjectIdentifier (this_conf toString_serializer) = ''toString'' \<and>
   is_serialized es_host toString_serializer (Obj [(''a'', Num (Finite 1))]) \<and>
   parse_reviver es_host toString_serializer None [] (Obj [(''a'', Num (Finite 1))]) = Inr Undefined \<and>
   parse es_host toString_serializer (WellFormed (JObj [(''a'', JNum 1)])) None = Inr Undefined"
  by (simp add: parse_def JSON_parse_def parse_reviver_def is_serialized_def destructure_def
      plugins_get_def toString_serializer_def es_host_def)

text \<open>
  C9. The reviver \<open>r\<close> of the caller is applied to the value \<open>d\<close> that a registered plugin
  has just deserialized from a serialized object of version 1, with the key of that
  object, and to nothing else: a node that is not taken for a serialized object is
  returned unchanged and a serialized object without a registered plugin gives its
  inner value, whatever \<open>r\<close> is; and in every case where no plugin has deserialized a
  value, the result is what it is without a reviver.
\<close>

theorem reviver_only_on_decoded:
  "(\<not> is_serialized H st v \<longrightarrow> parse_reviver H st (Some r) key v = Inr v) \<and>
   (is_serialized H st v \<and>
    destructure (own_property v (serializedObjectIdentifier (this_conf st))) = Inr (version, c, sv) \<and>
    plugins_get (plugins st) c = None \<longrightarrow>
      parse_reviver H st (Some r) key v = Inr sv) \<and>
   (is_serialized H st v \<and>
    destructure (own_property v (serializedObjectIdentifier (this_conf st))) = Inr (version, c, sv) \<and>
    plugins_get (plugins st) c = Some p \<and>
    check_version version = None \<and>
    deserialize p key sv = Inr d \<longrightarrow>
      parse_reviver H st (Some r) key v =
        (case r key d of
           Inr revived \<Rightarrow> Inr revived
         | Inl error \<Rightarrow>
             (case to_display d of
                Inl e \<Rightarrow> Inl e
              | Inr shown \<Rightarrow>
                  Inl (Thrown EvalError
                    (''An error occured while calling the reviver function on key='' @
                     quoted key @ '' and '' @ quoted shown @ ''.''))))) \<and>
   (\<not> (\<exists>version c sv p d.
          is_serialized H st v \<and>
          destructure (own_property v (serializedObjectIdentifier (this_conf st))) = Inr (version, c, sv) \<and>
          plugins_get (plugins st) c = Some p \<and>
          check_version version = None \<and>
          deserialize p key sv = Inr d) \<longrightarrow>
      parse_reviver H st (Some r) key v = parse_reviver H st None key v)"
proof (intro conjI impI)
  assume "\<not> is_serialized H st v"
  then show "parse_reviver H st (Some r) key v = Inr v"
    by (rule parse_reviver_unchanged)
next
  assume "is_serialized H st v \<and>
    destructure (own_property v (serializedObjectIdentifier (this_conf st))) = Inr (version, c, sv) \<and>
    plugins_get (plugins st) c = None"
  then show "parse_reviver H st (Some r) key v = Inr sv"
    by (simp add: parse_reviver_def)
next
  assume "is_serialized H st v \<and>
    destructure (own_property v (serializedObjectIdentifier (this_conf st))) = Inr (version, c, sv) \<and>
    plugins_get (plugins st) c = Some p \<and>
    check_version version = None \<and>
    deserialize p key sv = Inr d"
  then show "parse_reviver H st (Some r) key v =
        (case r key d of
           Inr revived \<Rightarrow> Inr revived
         | Inl error \<Rightarrow>
             (case to_display d of
                Inl e \<Rightarrow> Inl e
              | Inr shown \<Rightarrow>
                  Inl (Thrown EvalError
                    (''An error occured while calling the reviver function on key='' @
                     quoted key @ '' and '' @ quoted shown @ ''.''))))"
    by (simp add: parse_reviver_def call_deserialize_def call_reviver_def)
next
  assume a: "\<not> (\<exists>version c sv p d.
          is_serialized H st v \<and>
          destructure (own_property v (serializedObjectIdentifier (this_conf st))) = Inr (version, c, sv) \<and>
          plugins_get (plugins st) c = Some p \<and>
          check_version version = None \<and>
          deserialize p key sv = Inr d)"
  show "parse_reviver H st (Some r) key v = parse_reviver H st None key v"
  proof (cases "is_serialized H st v")
    case False
    then show ?thesis by (simp add: parse_reviver_def)
  next
    case True
    show ?thesis
    proof (cases "destructure (own_property v (serializedObjectIdentifier (this_conf st)))")
      case (Inl e)
      with True show ?thesis by (simp add: parse_reviver_def)
    next
      case (Inr t)
      obtain version c sv where t: "t = (version, c, sv)" by (cases t)
      show ?thesis
      proof (cases "plugins_get (plugins st) c")
        case None
        with True Inr t show ?thesis by (simp add: parse_reviver_def)
      next
        case (Some p)
        show ?thesis
        proof (cases "check_version version")
          case (Some e)
          with True Inr t \<open>plugins_get (plugins st) c = Some p\<close> show ?thesis
            by (simp add: parse_reviver_def)
        next
          case None
          with a True Inr t \<open>plugins_get (plugins st) c = Some p\<close>
          obtain e where "deserialize p key sv = Inl e"
            by (cases "deserialize p key sv") auto
          with None True Inr t \<open>plugins_get (plugins st) c = Some p\<close> show ?thesis
            by (simp add: parse_reviver_def call_deserialize_def split: sum.splits)
        qed
      qed
    qed
  qed
qed

theorem reviver_only_on_decoded_witness:
  "parse_reviver es_host set_serializer (Some (failing_hook ''boom'')) [] (Str ''s'') = Inr (Str ''s'') \<and>
   parse_reviver es_host set_serializer (Some (failing_hook ''boom'')) []
     (Obj [(''_@serialized-object'',
            Obj [(''version'', Num (Finite 1)), (''type'', Str ''widget''), (''value'', Num (Finite 5))])]) =
     Inr (Num (Finite 5)) \<and>
   parse_reviver es_host set_serializer (Some (\<lambda>key v. Inr (Arr [v, v]))) []
     (Obj [(''_@serialized-object'',
            Obj [(''version'', Num (Finite 1)), (''type'', Str ''Set''), (''value'', Arr [])])]) =
     Inr (Arr [set_of [], set_of []])"
proof -
  let ?widget = "Obj [(''_@serialized-object'',
            Obj [(''version'', Num (Finite 1)), (''type'', Str ''widget''), (''value'', Num (Finite 5))])]"
  let ?set = "Obj [(''_@serialized-object'',
            Obj [(''version'', Num (Finite 1)), (''type'', Str ''Set''), (''value'', Arr [])])]"
  have h1: "\<not> is_serialized es_host set_serializer (Str ''s'')"
    by simp
  have h2: "is_serialized es_host set_serializer ?widget \<and>
    destructure (own_property ?widget (serializedObjectIdentifier (this_conf set_serializer))) =
      Inr (Num (Finite 1), Str ''widget'', Num (Finite 5)) \<and>
    plugins_get (plugins set_serializer) (Str ''widget'') = None"
    by (simp add: is_serialized_def destructure_def plugins_get_def set_serializer_simps
        default_configuration_def)
  have h3: "is_serialized es_host set_serializer ?set \<and>
    destructure (own_property ?set (serializedObjectIdentifier (this_conf set_serializer))) =
      Inr (Num (Finite 1), Str ''Set'', Arr []) \<and>
    plugins_get (plugins set_serializer) (Str ''Set'') = Some set_plugin \<and>
    check_version (Num (Finite 1)) = None \<and>
    deserialize set_plugin [] (Arr []) = Inr (set_of [])"
    by (simp add: is_serialized_def destructure_def plugins_get_def set_serializer_simps
        default_configuration_def check_version_def set_plugin_def set_of_def)
  note t = reviver_only_on_decoded [where H = es_host and st = set_serializer and key = "[]"]
  have 1: "parse_reviver es_host set_serializer (Some (failing_hook ''boom'')) [] (Str ''s'') = Inr (Str ''s'')"
    using t [where v = "Str ''s''" and r = "failing_hook ''boom''", THEN conjunct1] h1 by blast
  have 2: "parse_reviver es_host set_serializer (Some (failing_hook ''boom'')) [] ?widget =
           Inr (Num (Finite 5))"
    using t [where v = ?widget and r = "failing_hook ''boom''" and version = "Num (Finite 1)"
        and c = "Str ''widget''" and sv = "Num (Finite 5)", THEN conjunct2, THEN conjunct1] h2
    by blast
  have 3: "parse_reviver es_host set_serializer (Some (\<lambda>key v. Inr (Arr [v, v]))) [] ?set =
           Inr (Arr [set_of [], set_of []])"
    using mp [OF t [where v = ?set and r = "\<lambda>key v. Inr (Arr [v, v])" and version = "Num (Finite 1)"
        and c = "Str ''Set''" and sv = "Arr []" and p = set_plugin and d = "set_of []",
        THEN conjunct2, THEN conjunct2, THEN conjunct1] h3]
    by simp
  from 1 2 3 show ?thesis by simp
qed

section \<open>Errors of the hooks\<close>

text \<open>
  C8, on the code: when the replacer or the reviver of the caller throws an error with
  message \<open>m\<close>, the error that \<^verbatim>\<open>stringify\<close> or \<^verbatim>\<open>parse\<close> throws names the key and
  the value, and is the same whatever \<open>m\<close> is: the message of the hook's error is not
  kept.
\<close>

theorem hook_message_dropped:
  "stringify es_host new_serializer (Str ''x'') (Some (failing_hook m)) =
     Inl (Thrown EvalError (''Error while stringifying object.'' @ blank_line @
            ''An error occured while calling the replacer function on key='' @ quoted [] @
            '' and '' @ quoted ''x'' @ ''.'')) \<and>
   parse es_host set_serializer
     (WellFormed (serialized_json ''_@serialized-object'' (JNum 1) (JStr ''Set'') (JNum 0)))
     (Some (failing_hook m)) =
     Inl (Thrown EvalError (''Error while parsing object.'' @ blank_line @
            ''An error occured while calling the reviver function on key='' @ quoted [] @
            '' and '' @ quoted ''[object Set]'' @ ''.''))"
proof
  show "stringify es_host new_serializer (Str ''x'') (Some (failing_hook m)) =
     Inl (Thrown EvalError (''Error while stringifying object.'' @ blank_line @
            ''An error occured while calling the replacer function on key='' @ quoted [] @
            '' and '' @ quoted ''x'' @ ''.''))"
    by (simp add: stringify_def JSON_stringify_def es_host_def JSON_serialize_property_unfold
        stringify_replacer_def call_replacer_def failing_hook_def apply_toJSON_def)
next
  have a: "JSON_internalize (parse_reviver es_host set_serializer (Some (failing_hook m))) ''value'' (JNum 0) =
           Inr (Num (Finite 0))"
    by (simp add: parse_reviver_unchanged)
  have b: "JSON_internalize (parse_reviver es_host set_serializer (Some (failing_hook m))) []
             (serialized_json ''_@serialized-object'' (JNum 1) (JStr ''Set'') (JNum 0)) =
           Inl (Thrown EvalError
                  (''An error occured while calling the reviver function on key='' @ quoted [] @
                   '' and '' @ quoted ''[object Set]'' @ ''.''))"
    using internalize_serialized_json_result [OF a, of "[]" 1 "''Set''"]
    by (simp add: set_serializer_simps(1) check_version_def call_deserialize_def call_reviver_def
        set_plugin_def failing_hook_def)
  show "parse es_host set_serializer
     (WellFormed (serialized_json ''_@serialized-object'' (JNum 1) (JStr ''Set'') (JNum 0)))
     (Some (failing_hook m)) =
     Inl (Thrown EvalError (''Error while parsing object.'' @ blank_line @
            ''An error occured while calling the reviver function on key='' @ quoted [] @
            '' and '' @ quoted ''[object Set]'' @ ''.''))"
    by (simp add: parse_def JSON_parse_def b)
qed

section \<open>Round trip\<close>

text \<open>
  Plain JSON data that no plugin claims is rendered as it is, when the stack is deep
  enough; and a text of which no tree is taken for a serialized object is parsed to the
  value it denotes.
\<close>

lemma from_json_defined [simp]: "from_json j \<noteq> Undefined"
  by (cases j) simp_all

lemma apply_toJSON_from_json [simp]: "apply_toJSON (from_json j) = from_json j"
  by (cases j) (simp_all add: apply_toJSON_def)

lemma stringify_replacer_unclaimed:
  "unclaimed st j \<Longrightarrow> stringify_replacer st None key (from_json j) = Inr (from_json j)"
  by (auto simp: unclaimed_def stringify_replacer_def call_replacer_def split: sum.splits)

lemma serialize_array_plain:
  assumes "\<And>x key. x \<in> set js \<Longrightarrow> JSON_serialize_property d f key (from_json x) = Inr (Some x)"
  shows "JSON_serialize_array d f i (map from_json js) = Inr js"
  using assms by (induction js arbitrary: i) simp_all

lemma serialize_object_plain:
  assumes "\<And>k x key. (k, x) \<in> set ms \<Longrightarrow> JSON_serialize_property d f key (from_json x) = Inr (Some x)"
  shows "JSON_serialize_object d f (map (\<lambda>(k, j). (k, from_json j)) ms) = Inr ms"
  using assms
proof (induction ms)
  case Nil
  then show ?case by simp
next
  case (Cons m ms)
  obtain k x where m: "m = (k, x)" by (cases m)
  have "JSON_serialize_property d f k (from_json x) = Inr (Some x)"
    using Cons.prems [of k x k] by (simp add: m)
  moreover have "JSON_serialize_object d f (map (\<lambda>(k, j). (k, from_json j)) ms) = Inr ms"
  proof (rule Cons.IH)
    fix k' x' key
    assume "(k', x') \<in> set ms"
    then show "JSON_serialize_property d f key (from_json x') = Inr (Some x')"
      using Cons.prems [of k' x' key] by simp
  qed
  ultimately show ?case by (simp add: m)
qed

lemma serialize_plain:
  "fits d j \<Longrightarrow> all_nodes (unclaimed st) j \<Longrightarrow>
   JSON_serialize_property d (stringify_replacer st None) key (from_json j) = Inr (Some j)"
proof (induction d arbitrary: j key)
  case 0
  then show ?case by simp
next
  case (Suc d)
  show ?case
  proof (cases j)
    case (JArr js)
    from Suc.prems JArr have u: "unclaimed st (JArr js)" by simp
    have "\<And>x key. x \<in> set js \<Longrightarrow>
            JSON_serialize_property d (stringify_replacer st None) key (from_json x) = Inr (Some x)"
      using Suc.IH Suc.prems JArr by simp
    from serialize_array_plain [OF this, of js 0] stringify_replacer_unclaimed [OF u, of key]
    show ?thesis by (simp add: JArr apply_toJSON_def)
  next
    case (JObj ms)
    from Suc.prems JObj have u: "unclaimed st (JObj ms)" by simp
    have "\<And>k x key. (k, x) \<in> set ms \<Longrightarrow>
            JSON_serialize_property d (stringify_replacer st None) key (from_json x) = Inr (Some x)"
    proof -
      fix k x key
      assume "(k, x) \<in> set ms"
      with Suc.prems JObj have "fits d x" "all_nodes (unclaimed st) x" by fastforce+
      then show "JSON_serialize_property d (stringify_replacer st None) key (from_json x) = Inr (Some x)"
        by (rule Suc.IH)
    qed
    from serialize_object_plain [OF this, of ms] stringify_replacer_unclaimed [OF u, of key]
    show ?thesis by (simp add: JObj apply_toJSON_def)
  next
    case JNull
    with Suc.prems stringify_replacer_unclaimed [of st JNull key] show ?thesis
      by (simp add: apply_toJSON_def)
  next
    case (JBool b)
    with Suc.prems stringify_replacer_unclaimed [of st "JBool b" key] show ?thesis
      by (simp add: apply_toJSON_def)
  next
    case (JNum i)
    with Suc.prems stringify_replacer_unclaimed [of st "JNum i" key] show ?thesis
      by (simp add: apply_toJSON_def)
  next
    case (JStr s)
    with Suc.prems stringify_replacer_unclaimed [of st "JStr s" key] show ?thesis
      by (simp add: apply_toJSON_def)
  qed
qed

lemma internalize_array_plain:
  assumes "\<And>x key. x \<in> set js \<Longrightarrow> JSON_internalize f key x = Inr (from_json x)"
  shows "JSON_internalize_array f i js = Inr (map from_json js)"
  using assms by (induction js arbitrary: i) simp_all

lemma internalize_object_plain:
  assumes "\<And>k x key. (k, x) \<in> set ms \<Longrightarrow> JSON_internalize f key x = Inr (from_json x)"
  shows "JSON_internalize_object f ms = Inr (map (\<lambda>(k, j). (k, from_json j)) ms)"
  using assms
proof (induction ms)
  case Nil
  then show ?case by simp
next
  case (Cons m ms)
  obtain k x where m: "m = (k, x)" by (cases m)
  have "JSON_internalize f k x = Inr (from_json x)"
    using Cons.prems [of k x k] by (simp add: m)
  moreover have "JSON_internalize_object f ms = Inr (map (\<lambda>(k, j). (k, from_json j)) ms)"
  proof (rule Cons.IH)
    fix k' x' key
    assume "(k', x') \<in> set ms"
    then show "JSON_internalize f key x' = Inr (from_json x')"
      using Cons.prems [of k' x' key] by simp
  qed
  ultimately show ?case by (simp add: m)
qed

lemma internalize_plain:
  "all_nodes (\<lambda>n. \<not> is_serialized H st (from_json n)) j \<Longrightarrow>
   JSON_internalize (parse_reviver H st reviver) key j = Inr (from_json j)"
proof (induction j arbitrary: key)
  case (JArr js)
  have "\<And>x key. x \<in> set js \<Longrightarrow>
          JSON_internalize (parse_reviver H st reviver) key x = Inr (from_json x)"
    using JArr by simp
  from internalize_array_plain [OF this, of js 0] JArr.prems show ?case
    by (simp add: parse_reviver_unchanged)
next
  case (JObj ms)
  have "\<And>k x key. (k, x) \<in> set ms \<Longrightarrow>
          JSON_internalize (parse_reviver H st reviver) key x = Inr (from_json x)"
  proof -
    fix k x key
    assume a: "(k, x) \<in> set ms"
    with JObj.prems have "all_nodes (\<lambda>n. \<not> is_serialized H st (from_json n)) x" by fastforce
    moreover from a have "x \<in> Basic_BNFs.snds (k, x)" by simp
    ultimately show "JSON_internalize (parse_reviver H st reviver) key x = Inr (from_json x)"
      using JObj.IH [OF a] by blast
  qed
  from internalize_object_plain [OF this, of ms] JObj.prems show ?case
    by (simp add: parse_reviver_unchanged)
qed (simp_all add: parse_reviver_unchanged)

lemma stringify_replacer_claimed:
  assumes "classify v = Inr (Str c)" and "plugins st c = Some p" and "serialize p key v = Inr e"
  shows "stringify_replacer st None key v =
           Inr (serialized_object (serializedObjectIdentifier (this_conf st)) (Str c) e)"
  using assms
  by (simp add: stringify_replacer_def call_replacer_def plugins_get_def call_serialize_def)

lemma serialized_object_from_json:
  "serialized_object m (Str c) (from_json j) =
     Obj [(m, from_json (JObj [(''version'', JNum 1), (''type'', JStr c), (''value'', j)]))]"
  by (simp add: serialized_object_def)

text \<open>
  Where the round trip does hold. Let \<open>v\<close> be a value that no \<^verbatim>\<open>toJSON\<close> method
  replaces and that is classified as \<open>c\<close>, with the plugin \<open>p\<close> registered for \<open>c\<close>.
  Suppose that \<^verbatim>\<open>p.serialize('', v)\<close> is plain JSON data \<open>j\<close>, that no plugin is
  registered for the identifier of any tree of \<open>j\<close>, nor for \<^verbatim>\<open>Object\<close>, \<^verbatim>\<open>Number\<close> and
  \<^verbatim>\<open>String\<close>, that \<^verbatim>\<open>parse\<close> takes no tree of \<open>j\<close> for a serialized object, that the
  stack has two frames more than \<open>j\<close> needs, and that \<^verbatim>\<open>p.deserialize('', j)\<close> is \<open>v\<close>.
  Then \<^verbatim>\<open>parse(stringify(v))\<close> returns \<open>v\<close>.
\<close>

lemma plain_round_trip:
  assumes tojson: "apply_toJSON v = v"
    and cls: "classify v = Inr (Str c)"
    and reg: "plugins st c = Some p"
    and enc: "serialize p [] v = Inr (from_json j)"
    and dec: "deserialize p [] (from_json j) = Inr v"
    and unc: "all_nodes (unclaimed st) j"
    and noenv: "all_nodes (\<lambda>n. \<not> is_serialized H st (from_json n)) j"
    and obj: "plugins st ''Object'' = None"
    and num: "plugins st ''Number'' = None"
    and str: "plugins st ''String'' = None"
    and depth: "fits (stack_depth H - 2) j"
  shows "stringify H st v None =
           Inr (Some (serialized_json (serializedObjectIdentifier (this_conf st)) (JNum 1) (JStr c) j)) \<and>
         parse H st
           (as_text (Some (serialized_json (serializedObjectIdentifier (this_conf st)) (JNum 1) (JStr c) j)))
           None = Inr v"
proof
  let ?m = "serializedObjectIdentifier (this_conf st)"
  let ?f = "stringify_replacer st None"
  let ?inner = "JObj [(''version'', JNum 1), (''type'', JStr c), (''value'', j)]"
  define D where "D = stack_depth H - 2"
  from depth have fitsD: "fits D j"
    by (simp add: D_def)
  then have "D \<noteq> 0"
    by (cases D) auto
  then have D: "stack_depth H = Suc (Suc D)"
    by (simp add: D_def)
  from fitsD obtain D' where D': "D = Suc D'"
    by (cases D) auto
  have inner_fits: "fits (Suc D) ?inner"
    using fitsD by (simp add: D')
  have inner_unclaimed: "all_nodes (unclaimed st) ?inner"
    using unc by (simp add: unclaimed_def classify_def plugins_get_def obj num str)
  have inner: "JSON_serialize_property (Suc D) ?f ?m (from_json ?inner) = Inr (Some ?inner)"
    using inner_fits inner_unclaimed by (rule serialize_plain)
  have root: "?f [] v = Inr (Obj [(?m, from_json ?inner)])"
    using stringify_replacer_claimed [OF cls reg enc] by (simp only: serialized_object_from_json)
  have "JSON_serialize_property (Suc (Suc D)) ?f [] v =
          Inr (Some (JObj [(?m, ?inner)]))"
    using root inner by (simp add: tojson)
  then show "stringify H st v None = Inr (Some (serialized_json ?m (JNum 1) (JStr c) j))"
    by (simp add: stringify_def JSON_stringify_def D serialized_json_def)
next
  let ?m = "serializedObjectIdentifier (this_conf st)"
  have a: "JSON_internalize (parse_reviver H st None) ''value'' j = Inr (from_json j)"
    using noenv by (rule internalize_plain)
  from internalize_serialized_json_result [OF a, of "[]" 1 c]
  have "JSON_internalize (parse_reviver H st None) [] (serialized_json ?m (JNum 1) (JStr c) j) = Inr v"
    by (simp add: reg check_version_def call_deserialize_def dec call_reviver_def)
  then show "parse H st (as_text (Some (serialized_json ?m (JNum 1) (JStr c) j))) None = Inr v"
    by (simp add: parse_def JSON_parse_def as_text_def)
qed

text \<open>The example plugin is an inverse pair on every set.\<close>

lemma set_plugin_inverse:
  "serialize set_plugin key (set_of xs) = Inr (Arr xs) \<and>
   deserialize set_plugin key (Arr xs) = Inr (set_of xs)"
  by (simp add: set_plugin_def set_of_def)

lemma plain_round_trip_example:
  "classify (set_of [Num (Finite 1), Str ''a'']) = Inr (Str ''Set'') \<and>
   plugins set_serializer ''Set'' = Some set_plugin \<and>
   serialize set_plugin [] (set_of [Num (Finite 1), Str ''a'']) = Inr (from_json (JArr [JNum 1, JStr ''a''])) \<and>
   stringify es_host set_serializer (set_of [Num (Finite 1), Str ''a'']) None =
     Inr (Some (serialized_json ''_@serialized-object'' (JNum 1) (JStr ''Set'') (JArr [JNum 1, JStr ''a'']))) \<and>
   parse es_host set_serializer
     (as_text (Some (serialized_json ''_@serialized-object'' (JNum 1) (JStr ''Set'') (JArr [JNum 1, JStr ''a'']))))
     None = Inr (set_of [Num (Finite 1), Str ''a''])"
proof -
  let ?v = "set_of [Num (Finite 1), Str ''a'']"
  let ?j = "JArr [JNum 1, JStr ''a'']"
  have tojson: "apply_toJSON ?v = ?v"
    by (simp add: apply_toJSON_def set_of_def)
  have cls: "classify ?v = Inr (Str ''Set'')"
    by (simp add: classify_def set_of_def)
  have reg: "plugins set_serializer ''Set'' = Some set_plugin"
    by (simp add: set_serializer_simps)
  have enc: "serialize set_plugin [] ?v = Inr (from_json ?j)"
    by (simp add: set_plugin_def set_of_def)
  have dec: "deserialize set_plugin [] (from_json ?j) = Inr ?v"
    by (simp add: set_plugin_def set_of_def)
  have unc: "all_nodes (unclaimed set_serializer) ?j"
    by (simp add: unclaimed_def classify_def plugins_get_def set_serializer_simps)
  have noenv: "all_nodes (\<lambda>n. \<not> is_serialized es_host set_serializer (from_json n)) ?j"
    by (simp add: is_serialized_def es_host_def)
  have others: "plugins set_serializer ''Object'' = None" "plugins set_serializer ''Number'' = None"
    "plugins set_serializer ''String'' = None"
    by (simp_all add: set_serializer_simps)
  have depth: "fits (stack_depth es_host - 2) ?j"
    by (simp add: es_host_def eval_nat_numeral)
  from plain_round_trip [OF tojson cls reg enc dec unc noenv others depth] cls reg enc
  show ?thesis by simp
qed

text \<open>
  What the plugin returns goes through the format layer before the plugin sees it
  again: the example plugin deserializes what it serializes to the same set, yet the set
  that holds NaN comes back from \<^verbatim>\<open>parse(stringify(v))\<close> as the set that holds
  \<^verbatim>\<open>null\<close>.
\<close>

lemma nan_in_set_becomes_null:
  "classify (set_of [Num NaN]) = Inr (Str ''Set'') \<and>
   plugins set_serializer ''Set'' = Some set_plugin \<and>
   serialize set_plugin [] (set_of [Num NaN]) = Inr (Arr [Num NaN]) \<and>
   deserialize set_plugin [] (Arr [Num NaN]) = Inr (set_of [Num NaN]) \<and>
   stringify es_host set_serializer (set_of [Num NaN]) None =
     Inr (Some (serialized_json ''_@serialized-object'' (JNum 1) (JStr ''Set'') (JArr [JNull]))) \<and>
   parse es_host set_serializer
     (as_text (Some (serialized_json ''_@serialized-object'' (JNum 1) (JStr ''Set'') (JArr [JNull]))))
     None = Inr (set_of [Null]) \<and>
   set_of [Null] \<noteq> set_of [Num NaN]"
proof -
  have cls: "classify (set_of [Num NaN]) = Inr (Str ''Set'')"
    by (simp add: classify_def set_of_def)
  have reg: "plugins set_serializer ''Set'' = Some set_plugin"
    by (simp add: set_serializer_simps)
  have s: "stringify es_host set_serializer (set_of [Num NaN]) None =
     Inr (Some (serialized_json ''_@serialized-object'' (JNum 1) (JStr ''Set'') (JArr [JNull])))"
    by (simp add: stringify_def JSON_stringify_def es_host_def JSON_serialize_property_unfold
        stringify_replacer_def call_replacer_def call_serialize_def classify_def plugins_get_def
        set_serializer_simps(1) set_plugin_def set_of_def apply_toJSON_def serialized_object_def
        serialized_json_def)
  have "\<not> is_serialized es_host set_serializer (Arr [Null])"
    by (simp add: is_serialized_def es_host_def show_nat_digit)
  then have a: "JSON_internalize (parse_reviver es_host set_serializer None) ''value'' (JArr [JNull]) =
           Inr (Arr [Null])"
    by (simp add: parse_reviver_unchanged)
  from internalize_serialized_json_result [OF a, of "[]" 1 "''Set''"]
  have "JSON_internalize (parse_reviver es_host set_serializer None) []
          (serialized_json ''_@serialized-object'' (JNum 1) (JStr ''Set'') (JArr [JNull])) =
        Inr (set_of [Null])"
    by (simp add: set_serializer_simps(1) check_version_def call_deserialize_def call_reviver_def
        set_plugin_def set_of_def)
  then have p: "parse es_host set_serializer
     (as_text (Some (serialized_json ''_@serialized-object'' (JNum 1) (JStr ''Set'') (JArr [JNull]))))
     None = Inr (set_of [Null])"
    by (simp add: parse_def JSON_parse_def as_text_def)
  from cls reg s p set_plugin_inverse [of "[]" "[Num NaN]"] show ?thesis
    by (simp add: set_of_def)
qed

lemma date_serializer_simps:
  "plugins (date_serializer iso_of shown) = [''Date'' \<mapsto> date_plugin iso_of shown]"
  "serializedObjectIdentifier (this_conf (date_serializer iso_of shown)) = ''_@serialized-object''"
  by (simp_all add: date_serializer_def new_serializer_def date_plugin_def this_conf_def
      default_configuration_def)

text \<open>The example plugin for dates is an inverse pair on every valid date.\<close>

lemma date_plugin_inverse:
  "\<bar>ms\<bar> \<le> 8640000000000000 \<Longrightarrow>
   serialize (date_plugin iso_of shown) key (date_of iso_of shown ms) = Inr (Num (Finite ms)) \<and>
   deserialize (date_plugin iso_of shown) key (Num (Finite ms)) = Inr (date_of iso_of shown ms)"
  by (simp add: date_plugin_def date_of_def)

text \<open>
  C1, on the code. The specification has \<^verbatim>\<open>parse(stringify(v))\<close> equal to \<open>v\<close> for a
  value \<open>v\<close> of a registered plugin whose two functions are inverse on \<open>v\<close>. For a date
  the code does not get there: \<^verbatim>\<open>JSON.stringify\<close> replaces the date by the string of
  its \<^verbatim>\<open>toJSON\<close> method before it calls the replacer (lines 196 to 198), so the chain
  of lines 212 to 225 classifies a string, the plugin registered for \<^verbatim>\<open>Date\<close> is never
  called, the text is the plain ISO string, and \<^verbatim>\<open>parse\<close> returns that string, not a
  date. Here for the date of the epoch, whatever strings the host writes for it.
\<close>

theorem date_bypasses_plugin:
  "classify (date_of iso_of shown 0) = Inr (Str ''Date'') \<and>
   plugins (date_serializer iso_of shown) ''Date'' = Some (date_plugin iso_of shown) \<and>
   serialize (date_plugin iso_of shown) [] (date_of iso_of shown 0) = Inr (Num (Finite 0)) \<and>
   deserialize (date_plugin iso_of shown) [] (Num (Finite 0)) = Inr (date_of iso_of shown 0) \<and>
   stringify_replacer (date_serializer iso_of shown) None [] (apply_toJSON (date_of iso_of shown 0)) =
     Inr (Str (iso_of 0)) \<and>
   stringify es_host (date_serializer iso_of shown) (date_of iso_of shown 0) None = Inr (Some (JStr (iso_of 0))) \<and>
   parse es_host (date_serializer iso_of shown) (as_text (Some (JStr (iso_of 0)))) None = Inr (Str (iso_of 0)) \<and>
   Str (iso_of 0) \<noteq> date_of iso_of shown 0"
proof -
  have cls: "classify (date_of iso_of shown 0) = Inr (Str ''Date'')"
    by (simp add: classify_def date_of_def)
  have reg: "plugins (date_serializer iso_of shown) ''Date'' = Some (date_plugin iso_of shown)"
    by (simp add: date_serializer_simps)
  have law: "serialize (date_plugin iso_of shown) [] (date_of iso_of shown 0) = Inr (Num (Finite 0)) \<and>
             deserialize (date_plugin iso_of shown) [] (Num (Finite 0)) = Inr (date_of iso_of shown 0)"
    by (rule date_plugin_inverse) simp
  have tojson: "apply_toJSON (date_of iso_of shown 0) = Str (iso_of 0)"
    by (simp add: apply_toJSON_def date_of_def)
  have rep: "stringify_replacer (date_serializer iso_of shown) None [] (Str (iso_of 0)) = Inr (Str (iso_of 0))"
    by (simp add: stringify_replacer_def call_replacer_def classify_def plugins_get_def
        date_serializer_simps)
  have s: "stringify es_host (date_serializer iso_of shown) (date_of iso_of shown 0) None =
           Inr (Some (JStr (iso_of 0)))"
    by (simp add: stringify_def JSON_stringify_def es_host_def JSON_serialize_property_unfold
        tojson rep)
  have p: "parse es_host (date_serializer iso_of shown) (as_text (Some (JStr (iso_of 0)))) None =
           Inr (Str (iso_of 0))"
    by (simp add: parse_def JSON_parse_def as_text_def parse_reviver_unchanged)
  have ne: "Str (iso_of 0) \<noteq> date_of iso_of shown 0"
    by (simp add: date_of_def)
  from cls reg law tojson rep s p ne show ?thesis
    by simp
qed

end
